theory Spec2Isabelle
  imports Complex_Main "HOL-Library.Word"
begin

section \<open>Python values used by server.py\<close>

text \<open>
  A Python \<^verbatim>\<open>str\<close> is a sequence of Unicode code points, and \<^verbatim>\<open>len\<close> counts code points.
  The model keeps that: a string is the list of its code points. The literals of the
  source are written with \<open>lit\<close>; the four status symbols of \<^verbatim>\<open>check_ports\<close> lie outside
  ASCII and are given by their code points.
\<close>

type_synonym pystr = "nat list"

definition lit :: "string \<Rightarrow> pystr" where
  "lit s = map of_char s"

text \<open>\<^verbatim>\<open>bytes\<close>, as \<^verbatim>\<open>response.content\<close> holds them.\<close>

type_synonym pybytes = "8 word list"

text \<open>
  A Python \<^verbatim>\<open>float\<close>. The source does two things with one: it hands it to the HTTP client
  and it prints it inside an f-string. The printed form is computed by the interpreter
  (shortest round-trip decimal), so a float carries it along with its numerical value.
\<close>

record pyfloat =
  float_value :: rat
  float_str :: pystr

text \<open>Lines 18 and 19.\<close>

definition DEFAULT_TIMEOUT :: pyfloat where
  "DEFAULT_TIMEOUT = \<lparr>float_value = 30, float_str = lit ''30.0''\<rparr>"

definition MAX_CONTENT_LENGTH :: nat where
  "MAX_CONTENT_LENGTH = 500000"

text \<open>\<^verbatim>\<open>str(n)\<close> and \<^verbatim>\<open>f"{n}"\<close> for an \<^verbatim>\<open>int\<close>: decimal digits, with a sign when negative.\<close>

fun str_nat :: "nat \<Rightarrow> pystr" where
  "str_nat n = (if n < 10 then [48 + n] else str_nat (n div 10) @ [48 + n mod 10])"

declare str_nat.simps [simp del]

definition str_int :: "int \<Rightarrow> pystr" where
  "str_int i = (if i < 0 then 45 # str_nat (nat (- i)) else str_nat (nat i))"

text \<open>
  \<^verbatim>\<open>str.upper\<close>. It maps each character on its own, to the one, two or three
  characters of its upper-case form, and concatenates the results. For an ASCII character
  that is the letter \<^verbatim>\<open>A\<close> to \<^verbatim>\<open>Z\<close> for \<^verbatim>\<open>a\<close> to \<^verbatim>\<open>z\<close> and the character itself otherwise. For
  the other characters it is fixed by the Unicode Character Database; the two tables hold
  the database of Unicode 14.0.0, which CPython 3.11 carries:
  \<^item> \<open>upper_special\<close> lists the characters whose upper-case form has several characters
    (U+00DF, sharp s, gives \<^verbatim>\<open>SS\<close>; U+FB06, the ligature st, gives \<^verbatim>\<open>ST\<close>);
  \<^item> \<open>upper_ranges\<close> lists the characters whose upper-case form is one other character: an
    entry \<open>(lo, hi, step, target)\<close> stands for the characters \<open>lo\<close>, \<open>lo + step\<close>, ... up to
    \<open>hi\<close>, and maps \<open>c\<close> to \<open>target + (c - lo)\<close> (U+017F, long s, gives \<^verbatim>\<open>S\<close>; U+00E9 gives
    U+00C9).
  A character in neither table is its own upper-case form.
\<close>

definition upper_special :: "(nat \<times> nat list) list" where
  "upper_special = [
    (223, [83, 83]), (329, [700, 78]), (496, [74, 780]), (912, [921, 776, 769]),
    (944, [933, 776, 769]), (1415, [1333, 1362]), (7830, [72, 817]), (7831, [84, 776]),
    (7832, [87, 778]), (7833, [89, 778]), (7834, [65, 702]), (8016, [933, 787]),
    (8018, [933, 787, 768]), (8020, [933, 787, 769]), (8022, [933, 787, 834]),
    (8064, [7944, 921]), (8065, [7945, 921]), (8066, [7946, 921]), (8067, [7947, 921]),
    (8068, [7948, 921]), (8069, [7949, 921]), (8070, [7950, 921]), (8071, [7951, 921]),
    (8072, [7944, 921]), (8073, [7945, 921]), (8074, [7946, 921]), (8075, [7947, 921]),
    (8076, [7948, 921]), (8077, [7949, 921]), (8078, [7950, 921]), (8079, [7951, 921]),
    (8080, [7976, 921]), (8081, [7977, 921]), (8082, [7978, 921]), (8083, [7979, 921]),
    (8084, [7980, 921]), (8085, [7981, 921]), (8086, [7982, 921]), (8087, [7983, 921]),
    (8088, [7976, 921]), (8089, [7977, 921]), (8090, [7978, 921]), (8091, [7979, 921]),
    (8092, [7980, 921]), (8093, [7981, 921]), (8094, [7982, 921]), (8095, [7983, 921]),
    (8096, [8040, 921]), (8097, [8041, 921]), (8098, [8042, 921]), (8099, [8043, 921]),
    (8100, [8044, 921]), (8101, [8045, 921]), (8102, [8046, 921]), (8103, [8047, 921]),
    (8104, [8040, 921]), (8105, [8041, 921]), (8106, [8042, 921]), (8107, [8043, 921]),
    (8108, [8044, 921]), (8109, [8045, 921]), (8110, [8046, 921]), (8111, [8047, 921]),
    (8114, [8122, 921]), (8115, [913, 921]), (8116, [902, 921]), (8118, [913, 834]),
    (8119, [913, 834, 921]), (8124, [913, 921]), (8130, [8138, 921]), (8131, [919, 921]),
    (8132, [905, 921]), (8134, [919, 834]), (8135, [919, 834, 921]), (8140, [919, 921]),
    (8146, [921, 776, 768]), (8147, [921, 776, 769]), (8150, [921, 834]),
    (8151, [921, 776, 834]), (8162, [933, 776, 768]), (8163, [933, 776, 769]),
    (8164, [929, 787]), (8166, [933, 834]), (8167, [933, 776, 834]), (8178, [8186, 921]),
    (8179, [937, 921]), (8180, [911, 921]), (8182, [937, 834]), (8183, [937, 834, 921]),
    (8188, [937, 921]), (64256, [70, 70]), (64257, [70, 73]), (64258, [70, 76]),
    (64259, [70, 70, 73]), (64260, [70, 70, 76]), (64261, [83, 84]), (64262, [83, 84]),
    (64275, [1348, 1350]), (64276, [1348, 1333]), (64277, [1348, 1339]), (64278, [1358, 1350]),
    (64279, [1348, 1341])]"

definition upper_ranges :: "(nat \<times> nat \<times> nat \<times> nat) list" where
  "upper_ranges = [
    (181, 181, 1, 924), (224, 246, 1, 192), (248, 254, 1, 216), (255, 255, 1, 376),
    (257, 303, 2, 256), (305, 305, 1, 73), (307, 311, 2, 306), (314, 328, 2, 313),
    (331, 375, 2, 330), (378, 382, 2, 377), (383, 383, 1, 83), (384, 384, 1, 579),
    (387, 389, 2, 386), (392, 392, 1, 391), (396, 396, 1, 395), (402, 402, 1, 401),
    (405, 405, 1, 502), (409, 409, 1, 408), (410, 410, 1, 573), (414, 414, 1, 544),
    (417, 421, 2, 416), (424, 424, 1, 423), (429, 429, 1, 428), (432, 432, 1, 431),
    (436, 438, 2, 435), (441, 441, 1, 440), (445, 445, 1, 444), (447, 447, 1, 503),
    (453, 453, 1, 452), (454, 454, 1, 452), (456, 456, 1, 455), (457, 457, 1, 455),
    (459, 459, 1, 458), (460, 460, 1, 458), (462, 476, 2, 461), (477, 477, 1, 398),
    (479, 495, 2, 478), (498, 498, 1, 497), (499, 499, 1, 497), (501, 501, 1, 500),
    (505, 543, 2, 504), (547, 563, 2, 546), (572, 572, 1, 571), (575, 576, 1, 11390),
    (578, 578, 1, 577), (583, 591, 2, 582), (592, 592, 1, 11375), (593, 593, 1, 11373),
    (594, 594, 1, 11376), (595, 595, 1, 385), (596, 596, 1, 390), (598, 599, 1, 393),
    (601, 601, 1, 399), (603, 603, 1, 400), (604, 604, 1, 42923), (608, 608, 1, 403),
    (609, 609, 1, 42924), (611, 611, 1, 404), (613, 613, 1, 42893), (614, 614, 1, 42922),
    (616, 616, 1, 407), (617, 617, 1, 406), (618, 618, 1, 42926), (619, 619, 1, 11362),
    (620, 620, 1, 42925), (623, 623, 1, 412), (625, 625, 1, 11374), (626, 626, 1, 413),
    (629, 629, 1, 415), (637, 637, 1, 11364), (640, 640, 1, 422), (642, 642, 1, 42949),
    (643, 643, 1, 425), (647, 647, 1, 42929), (648, 648, 1, 430), (649, 649, 1, 580),
    (650, 651, 1, 433), (652, 652, 1, 581), (658, 658, 1, 439), (669, 669, 1, 42930),
    (670, 670, 1, 42928), (837, 837, 1, 921), (881, 883, 2, 880), (887, 887, 1, 886),
    (891, 893, 1, 1021), (940, 940, 1, 902), (941, 943, 1, 904), (945, 961, 1, 913),
    (962, 962, 1, 931), (963, 971, 1, 931), (972, 972, 1, 908), (973, 974, 1, 910),
    (976, 976, 1, 914), (977, 977, 1, 920), (981, 981, 1, 934), (982, 982, 1, 928),
    (983, 983, 1, 975), (985, 1007, 2, 984), (1008, 1008, 1, 922), (1009, 1009, 1, 929),
    (1010, 1010, 1, 1017), (1011, 1011, 1, 895), (1013, 1013, 1, 917), (1016, 1016, 1, 1015),
    (1019, 1019, 1, 1018), (1072, 1103, 1, 1040), (1104, 1119, 1, 1024), (1121, 1153, 2, 1120),
    (1163, 1215, 2, 1162), (1218, 1230, 2, 1217), (1231, 1231, 1, 1216), (1233, 1327, 2, 1232),
    (1377, 1414, 1, 1329), (4304, 4346, 1, 7312), (4349, 4351, 1, 7357), (5112, 5117, 1, 5104),
    (7296, 7296, 1, 1042), (7297, 7297, 1, 1044), (7298, 7298, 1, 1054), (7299, 7300, 1, 1057),
    (7301, 7301, 1, 1058), (7302, 7302, 1, 1066), (7303, 7303, 1, 1122),
    (7304, 7304, 1, 42570), (7545, 7545, 1, 42877), (7549, 7549, 1, 11363),
    (7566, 7566, 1, 42950), (7681, 7829, 2, 7680), (7835, 7835, 1, 7776),
    (7841, 7935, 2, 7840), (7936, 7943, 1, 7944), (7952, 7957, 1, 7960), (7968, 7975, 1, 7976),
    (7984, 7991, 1, 7992), (8000, 8005, 1, 8008), (8017, 8023, 2, 8025), (8032, 8039, 1, 8040),
    (8048, 8049, 1, 8122), (8050, 8053, 1, 8136), (8054, 8055, 1, 8154), (8056, 8057, 1, 8184),
    (8058, 8059, 1, 8170), (8060, 8061, 1, 8186), (8112, 8113, 1, 8120), (8126, 8126, 1, 921),
    (8144, 8145, 1, 8152), (8160, 8161, 1, 8168), (8165, 8165, 1, 8172), (8526, 8526, 1, 8498),
    (8560, 8575, 1, 8544), (8580, 8580, 1, 8579), (9424, 9449, 1, 9398),
    (11312, 11359, 1, 11264), (11361, 11361, 1, 11360), (11365, 11365, 1, 570),
    (11366, 11366, 1, 574), (11368, 11372, 2, 11367), (11379, 11379, 1, 11378),
    (11382, 11382, 1, 11381), (11393, 11491, 2, 11392), (11500, 11502, 2, 11499),
    (11507, 11507, 1, 11506), (11520, 11557, 1, 4256), (11559, 11559, 1, 4295),
    (11565, 11565, 1, 4301), (42561, 42605, 2, 42560), (42625, 42651, 2, 42624),
    (42787, 42799, 2, 42786), (42803, 42863, 2, 42802), (42874, 42876, 2, 42873),
    (42879, 42887, 2, 42878), (42892, 42892, 1, 42891), (42897, 42899, 2, 42896),
    (42900, 42900, 1, 42948), (42903, 42921, 2, 42902), (42933, 42947, 2, 42932),
    (42952, 42954, 2, 42951), (42961, 42961, 1, 42960), (42967, 42969, 2, 42966),
    (42998, 42998, 1, 42997), (43859, 43859, 1, 42931), (43888, 43967, 1, 5024),
    (65345, 65370, 1, 65313), (66600, 66639, 1, 66560), (66776, 66811, 1, 66736),
    (66967, 66977, 1, 66928), (66979, 66993, 1, 66940), (66995, 67001, 1, 66956),
    (67003, 67004, 1, 66964), (68800, 68850, 1, 68736), (71872, 71903, 1, 71840),
    (93792, 93823, 1, 93760), (125218, 125251, 1, 125184)]"

fun special_get :: "(nat \<times> nat list) list \<Rightarrow> nat \<Rightarrow> nat list option" where
  "special_get [] c = None"
| "special_get ((k, v) # kvs) c = (if c = k then Some v else special_get kvs c)"

fun range_get :: "(nat \<times> nat \<times> nat \<times> nat) list \<Rightarrow> nat \<Rightarrow> nat option" where
  "range_get [] c = None"
| "range_get ((lo, hi, step, target) # rs) c =
     (if lo \<le> c \<and> c \<le> hi \<and> (c - lo) mod step = 0 then Some (target + (c - lo))
      else range_get rs c)"

definition upper_char :: "nat \<Rightarrow> nat list" where
  "upper_char c =
     (if c < 128 then [if 97 \<le> c \<and> c \<le> 122 then c - 32 else c]
      else case special_get upper_special c of
             Some cs \<Rightarrow> cs
           | None \<Rightarrow> (case range_get upper_ranges c of Some u \<Rightarrow> [u] | None \<Rightarrow> [c]))"

definition upper :: "pystr \<Rightarrow> pystr" where
  "upper s = concat (map upper_char s)"

text \<open>\<^verbatim>\<open>s.startswith(p)\<close>.\<close>

definition startswith :: "pystr \<Rightarrow> pystr \<Rightarrow> bool" where
  "startswith s p = (take (length p) s = p)"

text \<open>\<^verbatim>\<open>sep.join(xs)\<close>.\<close>

fun join :: "pystr \<Rightarrow> pystr list \<Rightarrow> pystr" where
  "join sep [] = []"
| "join sep [x] = x"
| "join sep (x # y # ys) = x @ sep @ join sep (y # ys)"

text \<open>Truth value of an \<^verbatim>\<open>Optional[str]\<close>: \<^verbatim>\<open>None\<close> and the empty string are false.\<close>

definition truthy :: "pystr option \<Rightarrow> bool" where
  "truthy b = (case b of None \<Rightarrow> False | Some s \<Rightarrow> s \<noteq> [])"

text \<open>
  A \<^verbatim>\<open>dict\<close> of request headers, in insertion order. \<^verbatim>\<open>headers or {}\<close> yields the empty
  dict for \<^verbatim>\<open>None\<close> and for an empty dict.
\<close>

type_synonym pydict = "(pystr \<times> pystr) list"

definition or_empty :: "pydict option \<Rightarrow> pydict" where
  "or_empty h = (case h of None \<Rightarrow> [] | Some d \<Rightarrow> if d \<noteq> [] then d else [])"


section \<open>The HTTP client\<close>

text \<open>
  \<^verbatim>\<open>httpx.Headers\<close> of a response: the header fields in the order received, a repeated
  name appearing once per occurrence, names in lower case (the list that
  \<^verbatim>\<open>multi_items()\<close> returns).

  \<^verbatim>\<open>Headers.items()\<close>, which the source iterates, builds a \<^verbatim>\<open>dict\<close> from that list: the
  first occurrence of a name inserts it, a later occurrence appends a comma, a space and
  the value to the entry (\<open>items_step\<close> is one round of that loop).
  \<^verbatim>\<open>Headers.get(key, default)\<close> joins the values of every field of that name with a comma
  and a space, and returns the default when there is none; it compares the lower-cased
  key, and the one key the source asks for, \<^verbatim>\<open>content-type\<close>, is in lower case already.
\<close>

fun items_step :: "pydict \<Rightarrow> pystr \<Rightarrow> pystr \<Rightarrow> pydict" where
  "items_step [] k v = [(k, v)]"
| "items_step ((k', v') # d) k v =
     (if k' = k then (k', v' @ lit '', '' @ v) # d else (k', v') # items_step d k v)"

definition headers_items :: "(pystr \<times> pystr) list \<Rightarrow> pydict" where
  "headers_items hs = foldl (\<lambda>d (k, v). items_step d k v) [] hs"

definition headers_get :: "(pystr \<times> pystr) list \<Rightarrow> pystr \<Rightarrow> pystr \<Rightarrow> pystr" where
  "headers_get hs key dflt =
     (let items = map snd (filter (\<lambda>(k, v). k = key) hs)
      in if items \<noteq> [] then join (lit '', '') items else dflt)"

text \<open>The names of a header list, each once, in the order of their first occurrence.\<close>

definition first_names :: "(pystr \<times> pystr) list \<Rightarrow> pystr list" where
  "first_names hs = rev (remdups (rev (map fst hs)))"

text \<open>
  What the source reads of an \<^verbatim>\<open>httpx.Response\<close>: \<open>content\<close> is the body as bytes and
  \<open>response_text\<close> is \<^verbatim>\<open>response.text\<close>, the characters httpx decodes from those bytes by the
  charset of the response. The decoding is the library's; the model takes both as given and
  assumes no relation between them.
\<close>

record response =
  status_code :: int
  reason_phrase :: pystr
  headers :: "(pystr \<times> pystr) list"
  content :: pybytes
  response_text :: pystr

text \<open>
  What \<^verbatim>\<open>await client.request(...)\<close> can raise, by the handler that catches it.
  \<^item> \<open>ConnectError msg\<close>: an instance of \<^verbatim>\<open>httpx.ConnectError\<close> with \<^verbatim>\<open>str(e) = msg\<close>;
  \<^item> \<open>TimeoutException msg\<close>: an instance of \<^verbatim>\<open>httpx.TimeoutException\<close>;
  \<^item> \<open>HTTPStatusError r\<close>: an \<^verbatim>\<open>httpx.HTTPStatusError\<close> whose \<^verbatim>\<open>e.response\<close> is \<open>r\<close>;
  \<^item> \<open>OtherException name msg\<close>: any other instance of \<^verbatim>\<open>Exception\<close>, with
    \<^verbatim>\<open>type(e).__name__ = name\<close> and \<^verbatim>\<open>str(e) = msg\<close>;
  \<^item> \<open>NonException name msg\<close>: an instance of \<^verbatim>\<open>BaseException\<close> that is not an
    \<^verbatim>\<open>Exception\<close> (\<^verbatim>\<open>asyncio.CancelledError\<close>, \<^verbatim>\<open>KeyboardInterrupt\<close>, \<^verbatim>\<open>SystemExit\<close>).
\<close>

datatype py_exception =
    ConnectError pystr
  | TimeoutException pystr
  | HTTPStatusError response
  | OtherException pystr pystr
  | NonException pystr pystr

text \<open>\<^verbatim>\<open>isinstance(e, Exception)\<close>.\<close>

fun is_Exception :: "py_exception \<Rightarrow> bool" where
  "is_Exception (NonException name msg) = False"
| "is_Exception e = True"

text \<open>
  \<^verbatim>\<open>httpx.AsyncClient(timeout=..., follow_redirects=...)\<close>, and the arguments of one
  \<^verbatim>\<open>client.request(method, url, **kwargs)\<close>: a keyword that is not passed is \<open>None\<close>.
\<close>

record client_config =
  timeout :: pyfloat
  follow_redirects :: bool

record request =
  req_method :: pystr
  req_url :: pystr
  kw_headers :: "pydict option"
  kw_content :: "pystr option"

text \<open>
  The network is outside the program. It is a state with two parts: what it answers to
  a request (a response, or the exception the client raises), and the log of the requests
  that were issued, in order. Issuing a request reads the first and extends the second.
\<close>

record network =
  respond :: "client_config \<Rightarrow> request \<Rightarrow> py_exception + response"
  sent :: "(client_config \<times> request) list"

definition client_request ::
    "client_config \<Rightarrow> request \<Rightarrow> network \<Rightarrow> (py_exception + response) \<times> network" where
  "client_request cfg req net = (respond net cfg req, net\<lparr>sent := sent net @ [(cfg, req)]\<rparr>)"


text \<open>
  The record \<open>network\<close> admits every answer. An httpx client delivers less:
  \<^verbatim>\<open>client.request\<close> returns the response it received, whatever its status code, or raises
  the exception of the failed transfer; \<^verbatim>\<open>httpx.HTTPStatusError\<close> is raised by
  \<^verbatim>\<open>Response.raise_for_status()\<close> alone, which the client does not call. \<open>request_error\<close> is
  what \<^verbatim>\<open>client.request\<close> raises, \<open>raised\<close> is that exception as the handlers see it, and
  \<open>httpx_network transport issued\<close> is the network that an httpx client presents,
  \<open>transport\<close> being the answers of the servers and \<open>issued\<close> the requests issued so far.
\<close>

datatype request_error =
    RaisesConnectError pystr
  | RaisesTimeoutException pystr
  | RaisesOtherException pystr pystr
  | RaisesNonException pystr pystr

fun raised :: "request_error \<Rightarrow> py_exception" where
  "raised (RaisesConnectError msg) = ConnectError msg"
| "raised (RaisesTimeoutException msg) = TimeoutException msg"
| "raised (RaisesOtherException name msg) = OtherException name msg"
| "raised (RaisesNonException name msg) = NonException name msg"

definition httpx_network ::
    "(client_config \<Rightarrow> request \<Rightarrow> request_error + response) \<Rightarrow> (client_config \<times> request) list
     \<Rightarrow> network" where
  "httpx_network transport issued =
     \<lparr>respond = (\<lambda>cfg req. case transport cfg req of Inl e \<Rightarrow> Inl (raised e) | Inr r \<Rightarrow> Inr r),
      sent = issued\<rparr>"

section \<open>make_request\<close>

text \<open>Lines 103 to 105: the body text, cut at \<open>MAX_CONTENT_LENGTH\<close> characters.\<close>

definition body_content :: "response \<Rightarrow> pystr" where
  "body_content r =
     (if length (response_text r) > MAX_CONTENT_LENGTH
      then take MAX_CONTENT_LENGTH (response_text r)
           @ lit ''\<newline>\<newline>... [TRUNCATED - Response exceeded '' @ str_int (int MAX_CONTENT_LENGTH)
           @ lit '' bytes]''
      else response_text r)"

text \<open>Lines 98 to 121: the report of a response.\<close>

definition format_response :: "pystr \<Rightarrow> response \<Rightarrow> pystr" where
  "format_response url r =
     (let status = status_code r;
          content_type = headers_get (headers r) (lit ''content-type'') (lit ''unknown'');
          content = body_content r;
          result = lit ''## Response from '' @ url @ lit ''\<newline>\<newline>**Status:** '' @ str_int status
                   @ lit '' '' @ reason_phrase r
                   @ lit ''\<newline>**Content-Type:** '' @ content_type
                   @ lit ''\<newline>**Content-Length:** '' @ str_int (int (length (response.content r)))
                   @ lit '' bytes\<newline>\<newline>### Headers\<newline>'';
          result = foldl (\<lambda>result (key, value).
                            result @ lit ''- '' @ key @ lit '': '' @ value @ lit ''\<newline>'')
                         result (headers_items (headers r))
      in result @ lit ''\<newline>### Body\<newline>\<newline>```\<newline>'' @ content @ lit ''\<newline>```'')"

text \<open>
  Lines 123 to 130: the handlers, tried in the order written. An exception that no
  handler matches leaves the function.
\<close>

fun handle_exception :: "pystr \<Rightarrow> pyfloat \<Rightarrow> py_exception \<Rightarrow> py_exception + pystr" where
  "handle_exception url tmo (ConnectError msg) =
     Inr (lit ''**Connection Error:** Could not connect to '' @ url
          @ lit ''\<newline>\<newline>Make sure the server is running. Error: '' @ msg)"
| "handle_exception url tmo (TimeoutException msg) =
     Inr (lit ''**Timeout:** Request to '' @ url @ lit '' timed out after '' @ float_str tmo
          @ lit '' seconds'')"
| "handle_exception url tmo (HTTPStatusError r) =
     Inr (lit ''**HTTP Error:** '' @ str_int (status_code r) @ lit '' - '' @ reason_phrase r)"
| "handle_exception url tmo (OtherException name msg) =
     Inr (lit ''**Error:** '' @ name @ lit '': '' @ msg)"
| "handle_exception url tmo (NonException name msg) = Inl (NonException name msg)"

text \<open>
  Lines 91 to 96: the arguments of \<^verbatim>\<open>client.request(method.upper(), url, **kwargs)\<close>.
\<close>

definition request_kwargs :: "pystr \<Rightarrow> pystr \<Rightarrow> pydict option \<Rightarrow> pystr option \<Rightarrow> request" where
  "request_kwargs url method hdrs body =
     (let kwargs = \<lparr>req_method = upper method, req_url = url,
                    kw_headers = Some (or_empty hdrs), kw_content = None\<rparr>
      in if truthy body \<and> upper method \<in> set [lit ''POST'', lit ''PUT'', lit ''PATCH'']
         then kwargs\<lparr>kw_content := body\<rparr> else kwargs)"

text \<open>
  Lines 79 to 130. The result is the returned string, or the exception that leaves the
  function, and the network after the call.
\<close>

definition make_request ::
    "pystr \<Rightarrow> pystr \<Rightarrow> pydict option \<Rightarrow> pystr option \<Rightarrow> pyfloat \<Rightarrow> network
     \<Rightarrow> (py_exception + pystr) \<times> network" where
  "make_request url method hdrs body tmo net =
     (let client = \<lparr>timeout = tmo, follow_redirects = True\<rparr>;
          (outcome, net') = client_request client (request_kwargs url method hdrs body) net
      in (case outcome of
            Inr r \<Rightarrow> Inr (format_response url r)
          | Inl e \<Rightarrow> handle_exception url tmo e,
          net'))"


section \<open>fetch_localhost\<close>

text \<open>
  The validated input of the tool (lines 51 to 76); \<open>method_name\<close> is the field \<^verbatim>\<open>method\<close> and
  \<open>input_headers\<close> the field \<^verbatim>\<open>headers\<close>.
\<close>

record FetchLocalhostInput =
  port :: int
  path :: pystr
  method_name :: pystr
  input_headers :: "pydict option"
  body :: "pystr option"

text \<open>Line 195.\<close>

definition normalize_path :: "pystr \<Rightarrow> pystr" where
  "normalize_path p = (if startswith p (lit ''/'') then p else lit ''/'' @ p)"

text \<open>
  Lines 194 to 203. The call names no \<^verbatim>\<open>timeout\<close>, so the parameter takes the default of
  the signature of \<^verbatim>\<open>make_request\<close>, \<open>DEFAULT_TIMEOUT\<close>.
\<close>

definition fetch_localhost :: "FetchLocalhostInput \<Rightarrow> network \<Rightarrow> (py_exception + pystr) \<times> network" where
  "fetch_localhost params net =
     (let path = normalize_path (path params);
          url = lit ''http://localhost:'' @ str_int (port params) @ path
      in make_request url (method_name params) (input_headers params) (body params) DEFAULT_TIMEOUT net)"


section \<open>check_ports\<close>

text \<open>Line 233.\<close>

definition common_ports :: "int list" where
  "common_ports = [3000, 3001, 4000, 5000, 5173, 5174, 8000, 8080, 8888]"

text \<open>
  Line 236: \<^verbatim>\<open>httpx.AsyncClient(timeout=2.0)\<close>; redirects are not followed unless asked for.
  Line 240: \<^verbatim>\<open>client.get(url)\<close> is a GET request without further keywords.
\<close>

definition scan_client :: client_config where
  "scan_client = \<lparr>timeout = \<lparr>float_value = 2, float_str = lit ''2.0''\<rparr>, follow_redirects = False\<rparr>"

definition get_request :: "pystr \<Rightarrow> request" where
  "get_request url = \<lparr>req_method = lit ''GET'', req_url = url, kw_headers = None, kw_content = None\<rparr>"

text \<open>
  Lines 239 to 247: the status text of one probe. The symbols are U+2705, U+274C, U+23F3
  and U+26A0 U+FE0F. The last handler prints \<^verbatim>\<open>type(e).__name__\<close>.
\<close>

fun port_status :: "py_exception + response \<Rightarrow> py_exception + pystr" where
  "port_status (Inr r) = Inr ([9989] @ lit '' **OPEN** - Status '' @ str_int (status_code r))"
| "port_status (Inl (ConnectError msg)) = Inr ([10060] @ lit '' Closed/Not responding'')"
| "port_status (Inl (TimeoutException msg)) = Inr ([9203] @ lit '' Timeout (might be busy)'')"
| "port_status (Inl (HTTPStatusError r)) = Inr ([9888, 65039] @ lit '' Error: '' @ lit ''HTTPStatusError'')"
| "port_status (Inl (OtherException name msg)) = Inr ([9888, 65039] @ lit '' Error: '' @ name)"
| "port_status (Inl (NonException name msg)) = Inl (NonException name msg)"

text \<open>Lines 237 to 249: the loop over the ports (\<open>p\<close> is the loop variable \<^verbatim>\<open>port\<close>), \<open>results\<close>
  being the list built so far.\<close>

fun probe_ports :: "int list \<Rightarrow> pystr list \<Rightarrow> network \<Rightarrow> (py_exception + pystr list) \<times> network" where
  "probe_ports [] results net = (Inr results, net)"
| "probe_ports (p # ports) results net =
     (let url = lit ''http://localhost:'' @ str_int p @ lit ''/'';
          (outcome, net') = client_request scan_client (get_request url) net
      in case port_status outcome of
           Inl e \<Rightarrow> (Inl e, net')
         | Inr status \<Rightarrow>
             probe_ports ports
               (results @ [lit ''- **Port '' @ str_int p @ lit '':** '' @ status]) net')"

text \<open>Lines 233 to 251.\<close>

definition check_ports :: "network \<Rightarrow> (py_exception + pystr) \<times> network" where
  "check_ports net =
     (case probe_ports common_ports [lit ''## Local Port Scan Results\<newline>''] net of
        (Inl e, net') \<Rightarrow> (Inl e, net')
      | (Inr results, net') \<Rightarrow> (Inr (join (lit ''\<newline>'') results), net'))"


section \<open>Networks used in the examples\<close>

text \<open>A server that answers every request with \<open>r\<close>, and one on which every request raises \<open>e\<close>.\<close>

definition answering :: "response \<Rightarrow> network" where
  "answering r = \<lparr>respond = (\<lambda>cfg req. Inr r), sent = []\<rparr>"

definition raising :: "py_exception \<Rightarrow> network" where
  "raising e = \<lparr>respond = (\<lambda>cfg req. Inl e), sent = []\<rparr>"

text \<open>A machine on which only the Vite server on port 5173 is running.\<close>

definition ok_response :: response where
  "ok_response = \<lparr>status_code = 200, reason_phrase = lit ''OK'',
     headers = [(lit ''content-type'', lit ''text/html'')],
     content = [0x68, 0x69], response_text = lit ''hi''\<rparr>"

definition only_5173 :: network where
  "only_5173 = \<lparr>respond = (\<lambda>cfg req.
       if req_url req = lit ''http://localhost:5173/'' then Inr ok_response
       else Inl (ConnectError (lit ''All connection attempts failed''))),
     sent = []\<rparr>"

text \<open>A response that sets two cookies, and a response of 500001 characters.\<close>

definition two_cookies :: response where
  "two_cookies = \<lparr>status_code = 200, reason_phrase = lit ''OK'',
     headers = [(lit ''set-cookie'', lit ''a=1''), (lit ''set-cookie'', lit ''b=2'')],
     content = [], response_text = []\<rparr>"

definition long_response :: response where
  "long_response = \<lparr>status_code = 200, reason_phrase = lit ''OK'', headers = [],
     content = replicate 500001 0x61, response_text = replicate 500001 97\<rparr>"

text \<open>
  A response with an error status, an httpx client in front of a server that gives it, and
  the input of the scenario of the shorthand tool.
\<close>

definition not_found :: response where
  "not_found = \<lparr>status_code = 404, reason_phrase = lit ''Not Found'', headers = [],
     content = [], response_text = []\<rparr>"

definition not_found_server :: network where
  "not_found_server = httpx_network (\<lambda>cfg req. Inr not_found) []"

definition users_request :: FetchLocalhostInput where
  "users_request = \<lparr>port = 3000, path = lit ''api/users'', method_name = lit ''GET'',
     input_headers = None, body = None\<rparr>"

definition users_request_slash :: FetchLocalhostInput where
  "users_request_slash = \<lparr>port = 3000, path = lit ''/api/users'', method_name = lit ''GET'',
     input_headers = None, body = None\<rparr>"

text \<open>
  A response that repeats a header name around another header, and a machine whose ports
  answer in each of the ways that \<open>port_status\<close> tells apart.
\<close>

definition cookies_and_type :: response where
  "cookies_and_type = \<lparr>status_code = 200, reason_phrase = lit ''OK'',
     headers = [(lit ''set-cookie'', lit ''a=1''), (lit ''content-type'', lit ''text/html''),
                (lit ''set-cookie'', lit ''b=2'')],
     content = [0x68, 0x69], response_text = lit ''hi''\<rparr>"

definition mixed_ports :: network where
  "mixed_ports = \<lparr>respond = (\<lambda>cfg req.
       if req_url req = lit ''http://localhost:3000/'' then Inr not_found
       else if req_url req = lit ''http://localhost:3001/'' then Inl (TimeoutException [])
       else if req_url req = lit ''http://localhost:4000/''
         then Inl (OtherException (lit ''RemoteProtocolError'') (lit ''Server disconnected''))
       else if req_url req = lit ''http://localhost:5173/'' then Inr ok_response
       else if req_url req = lit ''http://localhost:8080/'' then Inl (HTTPStatusError not_found)
       else Inl (ConnectError (lit ''All connection attempts failed''))),
     sent = []\<rparr>"


section \<open>Basic facts\<close>

lemma lit_merge:
  "lit a @ lit b = lit (a @ b)"
  "lit a @ lit b @ c = lit (a @ b) @ c"
  by (simp_all add: lit_def)

lemma make_request_result:
  "fst (make_request url m h b t net) =
     (case respond net \<lparr>timeout = t, follow_redirects = True\<rparr> (request_kwargs url m h b) of
        Inr r \<Rightarrow> Inr (format_response url r)
      | Inl e \<Rightarrow> handle_exception url t e)"
  by (simp add: make_request_def client_request_def Let_def)

lemma make_request_sent:
  "sent (snd (make_request url m h b t net)) =
     sent net @ [(\<lparr>timeout = t, follow_redirects = True\<rparr>, request_kwargs url m h b)]"
  by (simp add: make_request_def client_request_def Let_def)

lemma request_kwargs_url [simp]: "req_url (request_kwargs url m h b) = url"
  by (simp add: request_kwargs_def Let_def)

lemma foldl_header_lines:
  "foldl (\<lambda>result (key, value). result @ lit ''- '' @ key @ lit '': '' @ value @ lit ''\<newline>'') acc xs
     = acc @ concat (map (\<lambda>(key, value). lit ''- '' @ key @ lit '': '' @ value @ lit ''\<newline>'') xs)"
  by (induction xs arbitrary: acc) auto

text \<open>The report of a response, section by section.\<close>

lemma format_response_sections:
  "format_response url r =
     lit ''## Response from '' @ url
     @ lit ''\<newline>\<newline>**Status:** '' @ str_int (status_code r) @ lit '' '' @ reason_phrase r
     @ lit ''\<newline>**Content-Type:** '' @ headers_get (headers r) (lit ''content-type'') (lit ''unknown'')
     @ lit ''\<newline>**Content-Length:** '' @ str_int (int (length (response.content r)))
     @ lit '' bytes\<newline>\<newline>### Headers\<newline>''
     @ concat (map (\<lambda>(key, value). lit ''- '' @ key @ lit '': '' @ value @ lit ''\<newline>'')
                   (headers_items (headers r)))
     @ lit ''\<newline>### Body\<newline>\<newline>```\<newline>'' @ body_content r @ lit ''\<newline>```''"
  by (simp add: format_response_def Let_def foldl_header_lines)

lemma str_int_MAX_CONTENT_LENGTH: "str_int (int MAX_CONTENT_LENGTH) = lit ''500000''"
  by (simp add: MAX_CONTENT_LENGTH_def str_int_def str_nat.simps lit_def)

lemma body_content_long:
  "length (response_text r) > 500000 \<Longrightarrow>
   body_content r = take 500000 (response_text r)
      @ lit ''\<newline>\<newline>... [TRUNCATED - Response exceeded 500000 bytes]''"
  by (simp add: body_content_def str_int_MAX_CONTENT_LENGTH) (simp add: MAX_CONTENT_LENGTH_def lit_def)

lemma format_response_nonempty: "format_response url r \<noteq> []"
  by (simp add: format_response_sections) (simp add: lit_def)

lemma handle_exception_text:
  "is_Exception e \<Longrightarrow> \<exists>s. handle_exception url t e = Inr s \<and> s \<noteq> []"
  by (cases e) (simp_all add: lit_def)

lemma handle_exception_propagates:
  "\<not> is_Exception e \<Longrightarrow> handle_exception url t e = Inl e"
  by (cases e) simp_all

lemma startswith_normalize_path: "startswith (normalize_path p) (lit ''/'')"
  by (simp add: normalize_path_def startswith_def lit_def)

lemma fetch_localhost_sent:
  "sent (snd (fetch_localhost params net)) =
      sent net @ [(\<lparr>timeout = DEFAULT_TIMEOUT, follow_redirects = True\<rparr>,
        request_kwargs (lit ''http://localhost:'' @ str_int (port params) @ normalize_path (path params))
          (method_name params) (input_headers params) (body params))]"
  by (simp add: fetch_localhost_def make_request_sent Let_def)


section \<open>What make_request returns\<close>

text \<open>
  Claim C1, as stated, fails: \<^verbatim>\<open>except Exception\<close> is the widest handler, so an exception
  outside \<^verbatim>\<open>Exception\<close>, such as the \<^verbatim>\<open>asyncio.CancelledError\<close> of a cancelled tool call,
  is raised inside the request block and leaves \<^verbatim>\<open>make_request\<close>.
\<close>

theorem cancellation_leaves_make_request:
  "fst (make_request (lit ''http://localhost:3000/'') (lit ''GET'') None None DEFAULT_TIMEOUT
          (raising (NonException (lit ''CancelledError'') [])))
     = Inl (NonException (lit ''CancelledError'') [])"
  by (simp add: make_request_result raising_def)

text \<open>
  Claim C1, amended: for every URL, method, headers, body and timeout, when the client
  returns a response or raises an instance of \<^verbatim>\<open>Exception\<close> (connection error, timeout,
  HTTP status error, any other \<^verbatim>\<open>Exception\<close>), \<^verbatim>\<open>make_request\<close> returns a non-empty
  string; an exception that is not an instance of \<^verbatim>\<open>Exception\<close> is not caught and leaves
  the function.
\<close>

theorem make_request_text:
  "((\<forall>e. respond net \<lparr>timeout = t, follow_redirects = True\<rparr> (request_kwargs url m h b) = Inl e
          \<longrightarrow> is_Exception e)
      \<longrightarrow> (\<exists>s. fst (make_request url m h b t net) = Inr s \<and> s \<noteq> []))
   \<and> (\<forall>e. respond net \<lparr>timeout = t, follow_redirects = True\<rparr> (request_kwargs url m h b) = Inl e
          \<and> \<not> is_Exception e
      \<longrightarrow> fst (make_request url m h b t net) = Inl e)"
proof (cases "respond net \<lparr>timeout = t, follow_redirects = True\<rparr> (request_kwargs url m h b)")
  case (Inl e)
  then show ?thesis
    using handle_exception_text [of e url t] handle_exception_propagates [of e url t]
    by (auto simp add: make_request_result)
next
  case (Inr r)
  then show ?thesis
    by (simp add: make_request_result format_response_nonempty)
qed

text \<open>The scenario of the spec: a request to the closed port 9999.\<close>

theorem make_request_text_witness:
  "is_Exception (ConnectError (lit ''All connection attempts failed''))
   \<and> fst (make_request (lit ''http://localhost:9999'') (lit ''GET'') None None DEFAULT_TIMEOUT
        (raising (ConnectError (lit ''All connection attempts failed'')))) =
     Inr (lit ''**Connection Error:** Could not connect to http://localhost:9999\<newline>\<newline>Make sure the server is running. Error: All connection attempts failed'')
   \<and> lit ''**Connection Error:** Could not connect to http://localhost:9999\<newline>\<newline>Make sure the server is running. Error: All connection attempts failed'' \<noteq> []
   \<and> \<not> is_Exception (NonException (lit ''KeyboardInterrupt'') [])
   \<and> fst (make_request (lit ''http://localhost:9999'') (lit ''GET'') None None DEFAULT_TIMEOUT
        (raising (NonException (lit ''KeyboardInterrupt'') []))) =
     Inl (NonException (lit ''KeyboardInterrupt'') [])"
proof -
  have interrupted: "fst (make_request (lit ''http://localhost:9999'') (lit ''GET'') None None
        DEFAULT_TIMEOUT (raising (NonException (lit ''KeyboardInterrupt'') []))) =
     Inl (NonException (lit ''KeyboardInterrupt'') [])"
    using make_request_text [of "raising (NonException (lit ''KeyboardInterrupt'') [])"
        DEFAULT_TIMEOUT "lit ''http://localhost:9999''" "lit ''GET''" None None, THEN conjunct2]
    by (simp add: raising_def)
  have out: "respond (raising (ConnectError (lit ''All connection attempts failed'')))
      \<lparr>timeout = DEFAULT_TIMEOUT, follow_redirects = True\<rparr>
      (request_kwargs (lit ''http://localhost:9999'') (lit ''GET'') None None)
      = Inl (ConnectError (lit ''All connection attempts failed''))"
    by (simp add: raising_def)
  have hyp: "\<forall>e. respond (raising (ConnectError (lit ''All connection attempts failed'')))
      \<lparr>timeout = DEFAULT_TIMEOUT, follow_redirects = True\<rparr>
      (request_kwargs (lit ''http://localhost:9999'') (lit ''GET'') None None) = Inl e \<longrightarrow> is_Exception e"
    by (auto simp add: out)
  obtain s where s: "fst (make_request (lit ''http://localhost:9999'') (lit ''GET'') None None
        DEFAULT_TIMEOUT (raising (ConnectError (lit ''All connection attempts failed'')))) = Inr s"
      "s \<noteq> []"
    using make_request_text [of "raising (ConnectError (lit ''All connection attempts failed''))"
        DEFAULT_TIMEOUT "lit ''http://localhost:9999''" "lit ''GET''" None None] hyp
    by blast
  have "s = lit ''**Connection Error:** Could not connect to http://localhost:9999\<newline>\<newline>Make sure the server is running. Error: All connection attempts failed''"
    using s(1) by (simp add: make_request_result out) (simp add: lit_def)
  with s interrupted show ?thesis by simp
qed

text \<open>
  Claim C2: when the text of a response is longer than 500,000 characters, the body of
  the report is its first 500,000 characters followed by the truncation notice, which
  names the limit, and the Content-Length line gives the number of bytes of
  \<^verbatim>\<open>response.content\<close>, whatever the length of the text.
\<close>

theorem truncation_law:
  assumes "respond net \<lparr>timeout = t, follow_redirects = True\<rparr> (request_kwargs url m h b) = Inr r"
    and "length (response_text r) > 500000"
  shows "fst (make_request url m h b t net) = Inr (
       lit ''## Response from '' @ url
     @ lit ''\<newline>\<newline>**Status:** '' @ str_int (status_code r) @ lit '' '' @ reason_phrase r
     @ lit ''\<newline>**Content-Type:** '' @ headers_get (headers r) (lit ''content-type'') (lit ''unknown'')
     @ lit ''\<newline>**Content-Length:** '' @ str_int (int (length (response.content r)))
     @ lit '' bytes\<newline>\<newline>### Headers\<newline>''
     @ concat (map (\<lambda>(key, value). lit ''- '' @ key @ lit '': '' @ value @ lit ''\<newline>'')
                   (headers_items (headers r)))
     @ lit ''\<newline>### Body\<newline>\<newline>```\<newline>''
     @ take 500000 (response_text r)
     @ lit ''\<newline>\<newline>... [TRUNCATED - Response exceeded 500000 bytes]''
     @ lit ''\<newline>```'')
   \<and> length (body_content r) =
       500000 + length (lit ''\<newline>\<newline>... [TRUNCATED - Response exceeded 500000 bytes]'')"
  using assms
  by (simp add: make_request_result format_response_sections body_content_long)

theorem truncation_law_witness:
  "respond (answering long_response) \<lparr>timeout = DEFAULT_TIMEOUT, follow_redirects = True\<rparr>
       (request_kwargs (lit ''http://localhost:8000/big'') (lit ''GET'') None None) = Inr long_response
   \<and> length (response_text long_response) > 500000
   \<and> length (response.content long_response) = 500001
   \<and> fst (make_request (lit ''http://localhost:8000/big'') (lit ''GET'') None None DEFAULT_TIMEOUT
             (answering long_response)) = Inr (
       lit ''## Response from http://localhost:8000/big\<newline>\<newline>**Status:** 200 OK\<newline>**Content-Type:** unknown\<newline>**Content-Length:** 500001 bytes\<newline>\<newline>### Headers\<newline>\<newline>### Body\<newline>\<newline>```\<newline>''
     @ replicate 500000 97
     @ lit ''\<newline>\<newline>... [TRUNCATED - Response exceeded 500000 bytes]\<newline>```'')"
proof -
  have ok: "respond (answering long_response) \<lparr>timeout = DEFAULT_TIMEOUT, follow_redirects = True\<rparr>
       (request_kwargs (lit ''http://localhost:8000/big'') (lit ''GET'') None None) = Inr long_response"
    by (simp add: answering_def)
  have long: "length (response_text long_response) > 500000"
    by (simp add: long_response_def)
  have digits: "str_int 200 = lit ''200''" "str_int 500001 = lit ''500001''"
    by (simp_all add: str_int_def str_nat.simps lit_def)
  have "fst (make_request (lit ''http://localhost:8000/big'') (lit ''GET'') None None DEFAULT_TIMEOUT
             (answering long_response)) = Inr (
       lit ''## Response from http://localhost:8000/big\<newline>\<newline>**Status:** 200 OK\<newline>**Content-Type:** unknown\<newline>**Content-Length:** 500001 bytes\<newline>\<newline>### Headers\<newline>\<newline>### Body\<newline>\<newline>```\<newline>''
     @ replicate 500000 97
     @ lit ''\<newline>\<newline>... [TRUNCATED - Response exceeded 500000 bytes]\<newline>```'')"
    using truncation_law [OF ok long, THEN conjunct1]
    by (simp add: long_response_def headers_get_def headers_items_def digits) (simp add: lit_def)
  then show ?thesis
    using ok long by (simp add: long_response_def)
qed



section \<open>The method names that str.upper maps to POST, PUT and PATCH\<close>

text \<open>
  The entries of the two tables whose upper-case form begins with a character up to
  \<^verbatim>\<open>U\<close>, by evaluation of the tables.
\<close>

lemma special_low:
  "filter (\<lambda>(k, v). hd v \<le> 85) upper_special =
     [(223, [83, 83]), (496, [74, 780]), (7830, [72, 817]), (7831, [84, 776]), (7834, [65, 702]),
      (64256, [70, 70]), (64257, [70, 73]), (64258, [70, 76]), (64259, [70, 70, 73]),
      (64260, [70, 70, 76]), (64261, [83, 84]), (64262, [83, 84])]"
  by (simp add: upper_special_def)

lemma ranges_low:
  "filter (\<lambda>(lo, hi, step, target). target \<le> 85) upper_ranges = [(305, 305, 1, 73), (383, 383, 1, 83)]"
  by (simp add: upper_ranges_def)

lemma special_nonempty: "list_all (\<lambda>(k, v). v \<noteq> []) upper_special"
  by (simp add: upper_special_def)

lemma special_get_mem: "special_get kvs c = Some v \<Longrightarrow> (c, v) \<in> set kvs"
  by (induction kvs) (auto split: if_splits)

lemma range_get_mem:
  "range_get rs c = Some u \<Longrightarrow>
   \<exists>lo hi step target. (lo, hi, step, target) \<in> set rs \<and> lo \<le> c \<and> c \<le> hi \<and> u = target + (c - lo)"
proof (induction rs)
  case Nil
  then show ?case by simp
next
  case (Cons e rs)
  obtain lo hi step target where e: "e = (lo, hi, step, target)"
    by (cases e)
  show ?case
  proof (cases "lo \<le> c \<and> c \<le> hi \<and> (c - lo) mod step = 0")
    case True
    with Cons.prems have "u = target + (c - lo)"
      by (simp add: e)
    with True show ?thesis
      unfolding e by (intro exI [of _ lo] exI [of _ hi] exI [of _ step] exI [of _ target]) simp
  next
    case False
    with Cons.prems have "range_get rs c = Some u"
      by (simp add: e)
    from Cons.IH [OF this] show ?thesis
      by auto
  qed
qed

lemma upper_char_ascii:
  "c < 128 \<Longrightarrow> upper_char c = [if 97 \<le> c \<and> c \<le> 122 then c - 32 else c]"
  by (simp add: upper_char_def)

lemma upper_char_nonempty: "upper_char c \<noteq> []"
proof (cases "special_get upper_special c")
  case None
  then show ?thesis
    by (simp add: upper_char_def split: option.split)
next
  case (Some v)
  then have "(c, v) \<in> set upper_special" by (rule special_get_mem)
  with special_nonempty have "v \<noteq> []"
    by (auto simp add: list_all_iff)
  with Some show ?thesis
    by (simp add: upper_char_def)
qed

text \<open>The characters outside ASCII whose upper form begins with a character up to U.\<close>

lemma upper_char_low:
  assumes "128 \<le> c" and "upper_char c = x # r" and "x \<le> 85"
  shows "(c, x # r) \<in> set [(223, [83, 83]), (305, [73]), (383, [83]), (496, [74, 780]),
      (7830, [72, 817]), (7831, [84, 776]), (7834, [65, 702]),
      (64256, [70, 70]), (64257, [70, 73]), (64258, [70, 76]), (64259, [70, 70, 73]),
      (64260, [70, 70, 76]), (64261, [83, 84]), (64262, [83, 84])]"
proof (cases "special_get upper_special c")
  case (Some v)
  with assms have v: "v = x # r" by (simp add: upper_char_def)
  from Some have "(c, v) \<in> set upper_special" by (rule special_get_mem)
  with v assms(3) have "(c, v) \<in> set (filter (\<lambda>(k, v). hd v \<le> 85) upper_special)"
    by simp
  then show ?thesis
    unfolding special_low v by auto
next
  case None
  show ?thesis
  proof (cases "range_get upper_ranges c")
    case None
    with \<open>special_get upper_special c = None\<close> assms show ?thesis
      by (simp add: upper_char_def)
  next
    case (Some u)
    with \<open>special_get upper_special c = None\<close> assms have u: "u = x" "r = []"
      by (simp_all add: upper_char_def)
    from range_get_mem [OF Some] obtain lo hi step target where
      e: "(lo, hi, step, target) \<in> set upper_ranges" "lo \<le> c" "c \<le> hi" "u = target + (c - lo)"
      by blast
    with u assms(3) have "target \<le> 85" by simp
    with e(1) have "(lo, hi, step, target) \<in> set (filter (\<lambda>(lo, hi, step, target). target \<le> 85) upper_ranges)"
      by simp
    then have "(lo, hi, step, target) = (305, 305, 1, 73) \<or> (lo, hi, step, target) = (383, 383, 1, 83)"
      unfolding ranges_low by simp
    with e u show ?thesis by auto
  qed
qed

lemma upper_char_P: "upper_char c = 80 # r \<longleftrightarrow> (c = 80 \<or> c = 112) \<and> r = []"
proof
  assume a: "upper_char c = 80 # r"
  show "(c = 80 \<or> c = 112) \<and> r = []"
  proof (cases "c < 128")
    case True
    with a show ?thesis by (auto simp add: upper_char_ascii split: if_splits)
  next
    case False
    with upper_char_low [OF _ a] show ?thesis by auto
  qed
next
  assume "(c = 80 \<or> c = 112) \<and> r = []"
  then show "upper_char c = 80 # r" by (auto simp add: upper_char_ascii)
qed

lemma upper_char_O: "upper_char c = 79 # r \<longleftrightarrow> (c = 79 \<or> c = 111) \<and> r = []"
proof
  assume a: "upper_char c = 79 # r"
  show "(c = 79 \<or> c = 111) \<and> r = []"
  proof (cases "c < 128")
    case True
    with a show ?thesis by (auto simp add: upper_char_ascii split: if_splits)
  next
    case False
    with upper_char_low [OF _ a] show ?thesis by auto
  qed
next
  assume "(c = 79 \<or> c = 111) \<and> r = []"
  then show "upper_char c = 79 # r"
    by (auto simp add: upper_char_ascii)
qed

lemma upper_char_U: "upper_char c = 85 # r \<longleftrightarrow> (c = 85 \<or> c = 117) \<and> r = []"
proof
  assume a: "upper_char c = 85 # r"
  show "(c = 85 \<or> c = 117) \<and> r = []"
  proof (cases "c < 128")
    case True
    with a show ?thesis by (auto simp add: upper_char_ascii split: if_splits)
  next
    case False
    with upper_char_low [OF _ a] show ?thesis by auto
  qed
next
  assume "(c = 85 \<or> c = 117) \<and> r = []"
  then show "upper_char c = 85 # r"
    by (auto simp add: upper_char_ascii)
qed

lemma upper_char_C: "upper_char c = 67 # r \<longleftrightarrow> (c = 67 \<or> c = 99) \<and> r = []"
proof
  assume a: "upper_char c = 67 # r"
  show "(c = 67 \<or> c = 99) \<and> r = []"
  proof (cases "c < 128")
    case True
    with a show ?thesis by (auto simp add: upper_char_ascii split: if_splits)
  next
    case False
    with upper_char_low [OF _ a] show ?thesis by auto
  qed
next
  assume "(c = 67 \<or> c = 99) \<and> r = []"
  then show "upper_char c = 67 # r"
    by (auto simp add: upper_char_ascii)
qed

lemma upper_char_S: "upper_char c = 83 # r \<longleftrightarrow> (c = 83 \<or> c = 115) \<and> r = [] \<or> c = 383 \<and> r = [] \<or> c = 223 \<and> r = [83] \<or> c = 64261 \<and> r = [84] \<or> c = 64262 \<and> r = [84]"
proof
  assume a: "upper_char c = 83 # r"
  show "(c = 83 \<or> c = 115) \<and> r = [] \<or> c = 383 \<and> r = [] \<or> c = 223 \<and> r = [83] \<or> c = 64261 \<and> r = [84] \<or> c = 64262 \<and> r = [84]"
  proof (cases "c < 128")
    case True
    with a show ?thesis by (auto simp add: upper_char_ascii split: if_splits)
  next
    case False
    with upper_char_low [OF _ a] show ?thesis by auto
  qed
next
  assume "(c = 83 \<or> c = 115) \<and> r = [] \<or> c = 383 \<and> r = [] \<or> c = 223 \<and> r = [83] \<or> c = 64261 \<and> r = [84] \<or> c = 64262 \<and> r = [84]"
  moreover have "upper_char 383 = [83]" "upper_char 223 = [83, 83]" "upper_char 64261 = [83, 84]" "upper_char 64262 = [83, 84]"
    by (simp_all add: upper_char_def upper_special_def upper_ranges_def)
  ultimately show "upper_char c = 83 # r"
    by (auto simp add: upper_char_ascii)
qed

lemma upper_char_T: "upper_char c = 84 # r \<longleftrightarrow> (c = 84 \<or> c = 116) \<and> r = [] \<or> c = 7831 \<and> r = [776]"
proof
  assume a: "upper_char c = 84 # r"
  show "(c = 84 \<or> c = 116) \<and> r = [] \<or> c = 7831 \<and> r = [776]"
  proof (cases "c < 128")
    case True
    with a show ?thesis by (auto simp add: upper_char_ascii split: if_splits)
  next
    case False
    with upper_char_low [OF _ a] show ?thesis by auto
  qed
next
  assume "(c = 84 \<or> c = 116) \<and> r = [] \<or> c = 7831 \<and> r = [776]"
  moreover have "upper_char 7831 = [84, 776]"
    by (simp_all add: upper_char_def upper_special_def upper_ranges_def)
  ultimately show "upper_char c = 84 # r"
    by (auto simp add: upper_char_ascii)
qed

lemma upper_char_A: "upper_char c = 65 # r \<longleftrightarrow> (c = 65 \<or> c = 97) \<and> r = [] \<or> c = 7834 \<and> r = [702]"
proof
  assume a: "upper_char c = 65 # r"
  show "(c = 65 \<or> c = 97) \<and> r = [] \<or> c = 7834 \<and> r = [702]"
  proof (cases "c < 128")
    case True
    with a show ?thesis by (auto simp add: upper_char_ascii split: if_splits)
  next
    case False
    with upper_char_low [OF _ a] show ?thesis by auto
  qed
next
  assume "(c = 65 \<or> c = 97) \<and> r = [] \<or> c = 7834 \<and> r = [702]"
  moreover have "upper_char 7834 = [65, 702]"
    by (simp_all add: upper_char_def upper_special_def upper_ranges_def)
  ultimately show "upper_char c = 65 # r"
    by (auto simp add: upper_char_ascii)
qed

lemma upper_char_H: "upper_char c = 72 # r \<longleftrightarrow> (c = 72 \<or> c = 104) \<and> r = [] \<or> c = 7830 \<and> r = [817]"
proof
  assume a: "upper_char c = 72 # r"
  show "(c = 72 \<or> c = 104) \<and> r = [] \<or> c = 7830 \<and> r = [817]"
  proof (cases "c < 128")
    case True
    with a show ?thesis by (auto simp add: upper_char_ascii split: if_splits)
  next
    case False
    with upper_char_low [OF _ a] show ?thesis by auto
  qed
next
  assume "(c = 72 \<or> c = 104) \<and> r = [] \<or> c = 7830 \<and> r = [817]"
  moreover have "upper_char 7830 = [72, 817]"
    by (simp_all add: upper_char_def upper_special_def upper_ranges_def)
  ultimately show "upper_char c = 72 # r"
    by (auto simp add: upper_char_ascii)
qed

lemma upper_eq_Nil [simp]: "upper m = [] \<longleftrightarrow> m = []"
  by (cases m) (simp_all add: upper_def upper_char_nonempty)

lemma upper_eq_Cons:
  "upper m = x # xs \<longleftrightarrow> (\<exists>c m' r. m = c # m' \<and> upper_char c = x # r \<and> r @ upper m' = xs)"
proof (cases m)
  case Nil
  then show ?thesis by (simp add: upper_def)
next
  case (Cons c m')
  obtain y r where "upper_char c = y # r"
    using upper_char_nonempty [of c] by (cases "upper_char c") auto
  with Cons show ?thesis
    by (auto simp add: upper_def)
qed

lemma upper_PUT:
  "upper m = lit ''PUT'' \<longleftrightarrow>
     (\<exists>p u t. m = [p, u, t] \<and> p \<in> {80, 112} \<and> u \<in> {85, 117} \<and> t \<in> {84, 116})"
proof
  assume "upper m = lit ''PUT''"
  then have 0: "upper m = [80, 85, 84]" by (simp add: lit_def)
  from 0 obtain p m1 where 1: "m = p # m1" "p = 80 \<or> p = 112" "upper m1 = [85, 84]"
    unfolding upper_eq_Cons [of m] upper_char_P by auto
  from 1(3) obtain u m2 where 2: "m1 = u # m2" "u = 85 \<or> u = 117" "upper m2 = [84]"
    unfolding upper_eq_Cons [of m1] upper_char_U by auto
  from 2(3) obtain t m3 where 3: "m2 = t # m3" "t = 84 \<or> t = 116" "m3 = []"
    unfolding upper_eq_Cons [of m2] upper_char_T by auto
  from 1 2 3 show "\<exists>p u t. m = [p, u, t] \<and> p \<in> {80, 112} \<and> u \<in> {85, 117} \<and> t \<in> {84, 116}"
    by simp
next
  assume "\<exists>p u t. m = [p, u, t] \<and> p \<in> {80, 112} \<and> u \<in> {85, 117} \<and> t \<in> {84, 116}"
  then show "upper m = lit ''PUT''"
    by (auto simp add: upper_def upper_char_ascii lit_def)
qed

lemma upper_PATCH:
  "upper m = lit ''PATCH'' \<longleftrightarrow>
     (\<exists>p a t c h. m = [p, a, t, c, h] \<and> p \<in> {80, 112} \<and> a \<in> {65, 97} \<and> t \<in> {84, 116}
        \<and> c \<in> {67, 99} \<and> h \<in> {72, 104})"
proof
  assume "upper m = lit ''PATCH''"
  then have 0: "upper m = [80, 65, 84, 67, 72]" by (simp add: lit_def)
  from 0 obtain p m1 where 1: "m = p # m1" "p = 80 \<or> p = 112" "upper m1 = [65, 84, 67, 72]"
    unfolding upper_eq_Cons [of m] upper_char_P by auto
  from 1(3) obtain a m2 where 2: "m1 = a # m2" "a = 65 \<or> a = 97" "upper m2 = [84, 67, 72]"
    unfolding upper_eq_Cons [of m1] upper_char_A by auto
  from 2(3) obtain t m3 where 3: "m2 = t # m3" "t = 84 \<or> t = 116" "upper m3 = [67, 72]"
    unfolding upper_eq_Cons [of m2] upper_char_T by auto
  from 3(3) obtain c m4 where 4: "m3 = c # m4" "c = 67 \<or> c = 99" "upper m4 = [72]"
    unfolding upper_eq_Cons [of m3] upper_char_C by auto
  from 4(3) obtain h m5 where 5: "m4 = h # m5" "h = 72 \<or> h = 104" "m5 = []"
    unfolding upper_eq_Cons [of m4] upper_char_H by auto
  from 1 2 3 4 5 show "\<exists>p a t c h. m = [p, a, t, c, h] \<and> p \<in> {80, 112} \<and> a \<in> {65, 97}
      \<and> t \<in> {84, 116} \<and> c \<in> {67, 99} \<and> h \<in> {72, 104}"
    by simp
next
  assume "\<exists>p a t c h. m = [p, a, t, c, h] \<and> p \<in> {80, 112} \<and> a \<in> {65, 97} \<and> t \<in> {84, 116}
        \<and> c \<in> {67, 99} \<and> h \<in> {72, 104}"
  then show "upper m = lit ''PATCH''"
    by (auto simp add: upper_def upper_char_ascii lit_def)
qed

lemma upper_POST:
  "upper m = lit ''POST'' \<longleftrightarrow>
     (\<exists>p o' s t. m = [p, o', s, t] \<and> p \<in> {80, 112} \<and> o' \<in> {79, 111} \<and> s \<in> {83, 115, 383}
        \<and> t \<in> {84, 116})
     \<or> (\<exists>p o' st. m = [p, o', st] \<and> p \<in> {80, 112} \<and> o' \<in> {79, 111} \<and> st \<in> {64261, 64262})"
proof
  assume "upper m = lit ''POST''"
  then have 0: "upper m = [80, 79, 83, 84]" by (simp add: lit_def)
  from 0 obtain p m1 where 1: "m = p # m1" "p = 80 \<or> p = 112" "upper m1 = [79, 83, 84]"
    unfolding upper_eq_Cons [of m] upper_char_P by auto
  from 1(3) obtain o' m2 where 2: "m1 = o' # m2" "o' = 79 \<or> o' = 111" "upper m2 = [83, 84]"
    unfolding upper_eq_Cons [of m1] upper_char_O by auto
  from 2(3) obtain s m3 where 3: "m2 = s # m3"
      "(s = 83 \<or> s = 115 \<or> s = 383) \<and> upper m3 = [84] \<or> (s = 64261 \<or> s = 64262) \<and> m3 = []"
    unfolding upper_eq_Cons [of m2] upper_char_S by auto
  from 3(2) show "(\<exists>p o' s t. m = [p, o', s, t] \<and> p \<in> {80, 112} \<and> o' \<in> {79, 111}
        \<and> s \<in> {83, 115, 383} \<and> t \<in> {84, 116})
     \<or> (\<exists>p o' st. m = [p, o', st] \<and> p \<in> {80, 112} \<and> o' \<in> {79, 111} \<and> st \<in> {64261, 64262})"
  proof
    assume a: "(s = 83 \<or> s = 115 \<or> s = 383) \<and> upper m3 = [84]"
    then have "upper m3 = [84]" by simp
    then obtain t m4 where 4: "m3 = t # m4" "t = 84 \<or> t = 116" "m4 = []"
      unfolding upper_eq_Cons [of m3] upper_char_T by auto
    with 1 2 3(1) a show ?thesis by simp
  next
    assume "(s = 64261 \<or> s = 64262) \<and> m3 = []"
    with 1 2 3(1) show ?thesis by simp
  qed
next
  assume "(\<exists>p o' s t. m = [p, o', s, t] \<and> p \<in> {80, 112} \<and> o' \<in> {79, 111} \<and> s \<in> {83, 115, 383}
        \<and> t \<in> {84, 116})
     \<or> (\<exists>p o' st. m = [p, o', st] \<and> p \<in> {80, 112} \<and> o' \<in> {79, 111} \<and> st \<in> {64261, 64262})"
  moreover have "upper_char 383 = [83]" "upper_char 64261 = [83, 84]" "upper_char 64262 = [83, 84]"
    by (simp_all add: upper_char_def upper_special_def upper_ranges_def)
  ultimately show "upper m = lit ''POST''"
    by (auto simp add: upper_def upper_char_ascii lit_def)
qed

section \<open>The request that make_request issues\<close>

text \<open>
  Claim C3: for every method \<open>m\<close> and non-empty body \<open>b\<close>, the one request that
  \<^verbatim>\<open>make_request\<close> issues carries \<open>b\<close> as its content if and only if \<open>upper m\<close> is POST, PUT or
  PATCH. With GET the body is dropped without an error: the call is the call without a body.
  The methods that \<open>upper\<close> maps to POST, PUT or PATCH are these words in any mixture of
  upper and lower case, and the spellings of POST with U+017F (long s, 383) for the s or
  with U+FB05 or U+FB06 (the ligatures of s and t, 64261 and 64262) for the st.
\<close>

theorem body_inclusion_law:
  assumes "b \<noteq> []"
  shows "sent (snd (make_request url m h (Some b) t net)) =
           sent net @ [(\<lparr>timeout = t, follow_redirects = True\<rparr>,
                        \<lparr>req_method = upper m, req_url = url, kw_headers = Some (or_empty h),
                         kw_content = (if upper m \<in> {lit ''POST'', lit ''PUT'', lit ''PATCH''}
                                       then Some b else None)\<rparr>)]
         \<and> (upper m = lit ''GET'' \<longrightarrow>
              make_request url m h (Some b) t net = make_request url m h None t net)
         \<and> (upper m \<in> {lit ''POST'', lit ''PUT'', lit ''PATCH''} \<longleftrightarrow>
              (\<exists>p o' s t. m = [p, o', s, t] \<and> p \<in> {80, 112} \<and> o' \<in> {79, 111}
                  \<and> s \<in> {83, 115, 383} \<and> t \<in> {84, 116})
            \<or> (\<exists>p o' st. m = [p, o', st] \<and> p \<in> {80, 112} \<and> o' \<in> {79, 111}
                  \<and> st \<in> {64261, 64262})
            \<or> (\<exists>p u t. m = [p, u, t] \<and> p \<in> {80, 112} \<and> u \<in> {85, 117} \<and> t \<in> {84, 116})
            \<or> (\<exists>p a t c h. m = [p, a, t, c, h] \<and> p \<in> {80, 112} \<and> a \<in> {65, 97}
                  \<and> t \<in> {84, 116} \<and> c \<in> {67, 99} \<and> h \<in> {72, 104}))"
proof -
  have kw: "request_kwargs url m h (Some b) =
      \<lparr>req_method = upper m, req_url = url, kw_headers = Some (or_empty h),
       kw_content = (if upper m \<in> {lit ''POST'', lit ''PUT'', lit ''PATCH''}
                     then Some b else None)\<rparr>"
    using assms by (simp add: request_kwargs_def truthy_def)
  have get: "request_kwargs url m h (Some b) = request_kwargs url m h None"
    if "upper m = lit ''GET''"
    using that by (simp add: request_kwargs_def truthy_def lit_def)
  have dropped: "make_request url m h (Some b) t net = make_request url m h None t net"
    if "upper m = lit ''GET''"
    using get [OF that] by (simp add: make_request_def)
  have logged: "sent (snd (make_request url m h (Some b) t net)) =
           sent net @ [(\<lparr>timeout = t, follow_redirects = True\<rparr>,
                        \<lparr>req_method = upper m, req_url = url, kw_headers = Some (or_empty h),
                         kw_content = (if upper m \<in> {lit ''POST'', lit ''PUT'', lit ''PATCH''}
                                       then Some b else None)\<rparr>)]"
    by (simp only: make_request_sent kw)
  have "upper m \<in> {lit ''POST'', lit ''PUT'', lit ''PATCH''} \<longleftrightarrow>
      upper m = lit ''POST'' \<or> upper m = lit ''PUT'' \<or> upper m = lit ''PATCH''"
    by simp
  then have spelled: "upper m \<in> {lit ''POST'', lit ''PUT'', lit ''PATCH''} \<longleftrightarrow>
              (\<exists>p o' s t. m = [p, o', s, t] \<and> p \<in> {80, 112} \<and> o' \<in> {79, 111}
                  \<and> s \<in> {83, 115, 383} \<and> t \<in> {84, 116})
            \<or> (\<exists>p o' st. m = [p, o', st] \<and> p \<in> {80, 112} \<and> o' \<in> {79, 111}
                  \<and> st \<in> {64261, 64262})
            \<or> (\<exists>p u t. m = [p, u, t] \<and> p \<in> {80, 112} \<and> u \<in> {85, 117} \<and> t \<in> {84, 116})
            \<or> (\<exists>p a t c h. m = [p, a, t, c, h] \<and> p \<in> {80, 112} \<and> a \<in> {65, 97}
                  \<and> t \<in> {84, 116} \<and> c \<in> {67, 99} \<and> h \<in> {72, 104})"
    unfolding upper_POST upper_PUT upper_PATCH by blast
  from logged dropped spelled show ?thesis
    by blast
qed

text \<open>
  A body sent with \<^verbatim>\<open>post\<close>, \<^verbatim>\<open>put\<close>, \<^verbatim>\<open>PaTcH\<close> and with \<^verbatim>\<open>post\<close> written with the long s goes
  out; the same body sent with \<^verbatim>\<open>get\<close> or \<^verbatim>\<open>delete\<close> does not.
\<close>

theorem body_inclusion_law_witness:
  "lit ''{}'' \<noteq> []
   \<and> sent (snd (make_request (lit ''http://localhost:3000/'') (lit ''post'') None (Some (lit ''{}''))
                  DEFAULT_TIMEOUT (answering ok_response))) =
       [(\<lparr>timeout = DEFAULT_TIMEOUT, follow_redirects = True\<rparr>,
         \<lparr>req_method = lit ''POST'', req_url = lit ''http://localhost:3000/'', kw_headers = Some [],
          kw_content = Some (lit ''{}'')\<rparr>)]
   \<and> sent (snd (make_request (lit ''http://localhost:3000/'') (lit ''put'') None (Some (lit ''{}''))
                  DEFAULT_TIMEOUT (answering ok_response))) =
       [(\<lparr>timeout = DEFAULT_TIMEOUT, follow_redirects = True\<rparr>,
         \<lparr>req_method = lit ''PUT'', req_url = lit ''http://localhost:3000/'', kw_headers = Some [],
          kw_content = Some (lit ''{}'')\<rparr>)]
   \<and> sent (snd (make_request (lit ''http://localhost:3000/'') (lit ''PaTcH'') None (Some (lit ''{}''))
                  DEFAULT_TIMEOUT (answering ok_response))) =
       [(\<lparr>timeout = DEFAULT_TIMEOUT, follow_redirects = True\<rparr>,
         \<lparr>req_method = lit ''PATCH'', req_url = lit ''http://localhost:3000/'', kw_headers = Some [],
          kw_content = Some (lit ''{}'')\<rparr>)]
   \<and> sent (snd (make_request (lit ''http://localhost:3000/'') [112, 111, 383, 116] None
                  (Some (lit ''{}'')) DEFAULT_TIMEOUT (answering ok_response))) =
       [(\<lparr>timeout = DEFAULT_TIMEOUT, follow_redirects = True\<rparr>,
         \<lparr>req_method = lit ''POST'', req_url = lit ''http://localhost:3000/'', kw_headers = Some [],
          kw_content = Some (lit ''{}'')\<rparr>)]
   \<and> upper (lit ''get'') = lit ''GET''
   \<and> sent (snd (make_request (lit ''http://localhost:3000/'') (lit ''get'') None (Some (lit ''{}''))
                  DEFAULT_TIMEOUT (answering ok_response))) =
       [(\<lparr>timeout = DEFAULT_TIMEOUT, follow_redirects = True\<rparr>,
         \<lparr>req_method = lit ''GET'', req_url = lit ''http://localhost:3000/'', kw_headers = Some [],
          kw_content = None\<rparr>)]
   \<and> make_request (lit ''http://localhost:3000/'') (lit ''get'') None (Some (lit ''{}''))
         DEFAULT_TIMEOUT (answering ok_response) =
       make_request (lit ''http://localhost:3000/'') (lit ''get'') None None
         DEFAULT_TIMEOUT (answering ok_response)
   \<and> sent (snd (make_request (lit ''http://localhost:3000/'') (lit ''delete'') None (Some (lit ''{}''))
                  DEFAULT_TIMEOUT (answering ok_response))) =
       [(\<lparr>timeout = DEFAULT_TIMEOUT, follow_redirects = True\<rparr>,
         \<lparr>req_method = lit ''DELETE'', req_url = lit ''http://localhost:3000/'', kw_headers = Some [],
          kw_content = None\<rparr>)]
   \<and> upper [112, 111, 64262] \<in> {lit ''POST'', lit ''PUT'', lit ''PATCH''}
   \<and> upper (lit ''pots'') \<notin> {lit ''POST'', lit ''PUT'', lit ''PATCH''}"
proof -
  have ne: "lit ''{}'' \<noteq> []" by (simp add: lit_def)
  have up: "upper (lit ''get'') = lit ''GET''"
    by (simp add: lit_def upper_def upper_char_def)
  have long_s: "upper [112, 111, 383, 116] = lit ''POST''"
    by (simp add: lit_def upper_def upper_char_def upper_special_def upper_ranges_def)
  note law = body_inclusion_law [OF ne, of "lit ''http://localhost:3000/''" _ None
        DEFAULT_TIMEOUT "answering ok_response"]
  have post: "sent (snd (make_request (lit ''http://localhost:3000/'') (lit ''post'') None
        (Some (lit ''{}'')) DEFAULT_TIMEOUT (answering ok_response))) =
       [(\<lparr>timeout = DEFAULT_TIMEOUT, follow_redirects = True\<rparr>,
         \<lparr>req_method = lit ''POST'', req_url = lit ''http://localhost:3000/'', kw_headers = Some [],
          kw_content = Some (lit ''{}'')\<rparr>)]"
    using law [of "lit ''post''", THEN conjunct1]
    by (simp add: lit_def upper_def upper_char_def or_empty_def answering_def)
  have put: "sent (snd (make_request (lit ''http://localhost:3000/'') (lit ''put'') None
        (Some (lit ''{}'')) DEFAULT_TIMEOUT (answering ok_response))) =
       [(\<lparr>timeout = DEFAULT_TIMEOUT, follow_redirects = True\<rparr>,
         \<lparr>req_method = lit ''PUT'', req_url = lit ''http://localhost:3000/'', kw_headers = Some [],
          kw_content = Some (lit ''{}'')\<rparr>)]"
    using law [of "lit ''put''", THEN conjunct1]
    by (simp add: lit_def upper_def upper_char_def or_empty_def answering_def)
  have patch: "sent (snd (make_request (lit ''http://localhost:3000/'') (lit ''PaTcH'') None
        (Some (lit ''{}'')) DEFAULT_TIMEOUT (answering ok_response))) =
       [(\<lparr>timeout = DEFAULT_TIMEOUT, follow_redirects = True\<rparr>,
         \<lparr>req_method = lit ''PATCH'', req_url = lit ''http://localhost:3000/'', kw_headers = Some [],
          kw_content = Some (lit ''{}'')\<rparr>)]"
    using law [of "lit ''PaTcH''", THEN conjunct1]
    by (simp add: lit_def upper_def upper_char_def or_empty_def answering_def)
  have post_long_s: "sent (snd (make_request (lit ''http://localhost:3000/'') [112, 111, 383, 116]
        None (Some (lit ''{}'')) DEFAULT_TIMEOUT (answering ok_response))) =
       [(\<lparr>timeout = DEFAULT_TIMEOUT, follow_redirects = True\<rparr>,
         \<lparr>req_method = lit ''POST'', req_url = lit ''http://localhost:3000/'', kw_headers = Some [],
          kw_content = Some (lit ''{}'')\<rparr>)]"
    using law [of "[112, 111, 383, 116]", THEN conjunct1]
    by (simp add: long_s or_empty_def answering_def)
  have get: "sent (snd (make_request (lit ''http://localhost:3000/'') (lit ''get'') None
        (Some (lit ''{}'')) DEFAULT_TIMEOUT (answering ok_response))) =
       [(\<lparr>timeout = DEFAULT_TIMEOUT, follow_redirects = True\<rparr>,
         \<lparr>req_method = lit ''GET'', req_url = lit ''http://localhost:3000/'', kw_headers = Some [],
          kw_content = None\<rparr>)]"
    using law [of "lit ''get''", THEN conjunct1]
    by (simp add: lit_def upper_def upper_char_def or_empty_def answering_def)
  have delete: "sent (snd (make_request (lit ''http://localhost:3000/'') (lit ''delete'') None
        (Some (lit ''{}'')) DEFAULT_TIMEOUT (answering ok_response))) =
       [(\<lparr>timeout = DEFAULT_TIMEOUT, follow_redirects = True\<rparr>,
         \<lparr>req_method = lit ''DELETE'', req_url = lit ''http://localhost:3000/'', kw_headers = Some [],
          kw_content = None\<rparr>)]"
    using law [of "lit ''delete''", THEN conjunct1]
    by (simp add: lit_def upper_def upper_char_def or_empty_def answering_def)
  have same: "make_request (lit ''http://localhost:3000/'') (lit ''get'') None (Some (lit ''{}''))
         DEFAULT_TIMEOUT (answering ok_response) =
       make_request (lit ''http://localhost:3000/'') (lit ''get'') None None
         DEFAULT_TIMEOUT (answering ok_response)"
    using law [of "lit ''get''", THEN conjunct2, THEN conjunct1] up by blast
  have ligature: "upper [112, 111, 64262] \<in> {lit ''POST'', lit ''PUT'', lit ''PATCH''}"
    using law [of "[112, 111, 64262]", THEN conjunct2, THEN conjunct2] by simp
  have pots: "upper (lit ''pots'') \<notin> {lit ''POST'', lit ''PUT'', lit ''PATCH''}"
    using law [of "lit ''pots''", THEN conjunct2, THEN conjunct2] by (simp add: lit_def)
  show ?thesis
    using ne post put patch post_long_s up get same delete ligature pots by blast
qed

text \<open>
  Claim C10: an empty string as body is never attached, whatever the method: the call
  is the call without a body, and the request issued has no content.
\<close>

theorem empty_body_not_attached:
  "make_request url m h (Some []) t net = make_request url m h None t net
   \<and> sent (snd (make_request url m h (Some []) t net)) =
       sent net @ [(\<lparr>timeout = t, follow_redirects = True\<rparr>,
                    \<lparr>req_method = upper m, req_url = url, kw_headers = Some (or_empty h),
                     kw_content = None\<rparr>)]"
  by (simp add: make_request_def client_request_def request_kwargs_def truthy_def Let_def)

theorem empty_body_not_attached_witness:
  "sent (snd (make_request (lit ''http://localhost:3000/'') (lit ''POST'') None (Some [])
                  DEFAULT_TIMEOUT (answering ok_response))) =
       [(\<lparr>timeout = DEFAULT_TIMEOUT, follow_redirects = True\<rparr>,
         \<lparr>req_method = lit ''POST'', req_url = lit ''http://localhost:3000/'', kw_headers = Some [],
          kw_content = None\<rparr>)]"
  using empty_body_not_attached [of "lit ''http://localhost:3000/''" "lit ''POST''" None
      DEFAULT_TIMEOUT "answering ok_response", THEN conjunct2]
  by (simp add: lit_def upper_def upper_char_def or_empty_def answering_def)

text \<open>
  Claim C8: whatever the status code of the response the client returns, \<^verbatim>\<open>make_request\<close>
  returns the report of that response, with that status code in its status line. The
  handler of line 127 would return a text that begins with \<^verbatim>\<open>**HTTP Error:**\<close>; on a network
  that an httpx client presents, no result of \<^verbatim>\<open>make_request\<close> begins so, and none is the
  result of that handler: \<^verbatim>\<open>make_request\<close> calls nothing that raises
  \<^verbatim>\<open>HTTPStatusError\<close>.
\<close>

theorem status_codes_pass_through:
  "(\<forall>r. respond net \<lparr>timeout = t, follow_redirects = True\<rparr> (request_kwargs url m h b) = Inr r \<longrightarrow>
        fst (make_request url m h b t net) = Inr (
            lit ''## Response from '' @ url
          @ lit ''\<newline>\<newline>**Status:** '' @ str_int (status_code r) @ lit '' '' @ reason_phrase r
          @ lit ''\<newline>**Content-Type:** ''
          @ headers_get (headers r) (lit ''content-type'') (lit ''unknown'')
          @ lit ''\<newline>**Content-Length:** '' @ str_int (int (length (response.content r)))
          @ lit '' bytes\<newline>\<newline>### Headers\<newline>''
          @ concat (map (\<lambda>(key, value). lit ''- '' @ key @ lit '': '' @ value @ lit ''\<newline>'')
                        (headers_items (headers r)))
          @ lit ''\<newline>### Body\<newline>\<newline>```\<newline>'' @ body_content r @ lit ''\<newline>```''))
   \<and> (\<forall>r. handle_exception url t (HTTPStatusError r) =
          Inr (lit ''**HTTP Error:** '' @ str_int (status_code r) @ lit '' - '' @ reason_phrase r))
   \<and> (\<forall>s. fst (make_request url m h b t (httpx_network transport issued)) = Inr s \<longrightarrow>
          \<not> startswith s (lit ''**HTTP Error:** ''))
   \<and> (\<forall>r. fst (make_request url m h b t (httpx_network transport issued))
          \<noteq> handle_exception url t (HTTPStatusError r))"
proof -
  let ?cfg = "\<lparr>timeout = t, follow_redirects = True\<rparr>"
  let ?req = "request_kwargs url m h b"
  have report: "fst (make_request url m h b t net) = Inr (
            lit ''## Response from '' @ url
          @ lit ''\<newline>\<newline>**Status:** '' @ str_int (status_code r) @ lit '' '' @ reason_phrase r
          @ lit ''\<newline>**Content-Type:** ''
          @ headers_get (headers r) (lit ''content-type'') (lit ''unknown'')
          @ lit ''\<newline>**Content-Length:** '' @ str_int (int (length (response.content r)))
          @ lit '' bytes\<newline>\<newline>### Headers\<newline>''
          @ concat (map (\<lambda>(key, value). lit ''- '' @ key @ lit '': '' @ value @ lit ''\<newline>'')
                        (headers_items (headers r)))
          @ lit ''\<newline>### Body\<newline>\<newline>```\<newline>'' @ body_content r @ lit ''\<newline>```'')"
    if "respond net ?cfg ?req = Inr r" for r
    using that by (simp add: make_request_result format_response_sections)
  have handler: "handle_exception url t (HTTPStatusError r) =
          Inr (lit ''**HTTP Error:** '' @ str_int (status_code r) @ lit '' - '' @ reason_phrase r)"
    for r
    by simp
  have marked: "startswith (lit ''**HTTP Error:** '' @ rest) (lit ''**HTTP Error:** '')" for rest
    by (simp add: startswith_def)
  have unmarked: "\<not> startswith s (lit ''**HTTP Error:** '')"
    if "fst (make_request url m h b t (httpx_network transport issued)) = Inr s" for s
  proof (cases "transport ?cfg ?req")
    case (Inr r)
    with that have "s = format_response url r"
      by (simp add: make_request_result httpx_network_def)
    then show ?thesis
      by (simp add: format_response_sections startswith_def lit_def)
  next
    case (Inl e)
    with that have "handle_exception url t (raised e) = Inr s"
      by (simp add: make_request_result httpx_network_def)
    then show ?thesis
      by (cases e) (auto simp add: startswith_def lit_def)
  qed
  have never: "fst (make_request url m h b t (httpx_network transport issued))
          \<noteq> handle_exception url t (HTTPStatusError r)" for r
    using unmarked [of "lit ''**HTTP Error:** '' @ str_int (status_code r) @ lit '' - ''
        @ reason_phrase r"] marked
    by (auto simp only: handler)
  from report handler unmarked never show ?thesis
    by blast
qed

text \<open>A server that answers 404: the report carries the code, and is not an error text.\<close>

theorem status_codes_pass_through_witness:
  "respond not_found_server \<lparr>timeout = DEFAULT_TIMEOUT, follow_redirects = True\<rparr>
      (request_kwargs (lit ''http://localhost:3000/missing'') (lit ''GET'') None None) = Inr not_found
   \<and> fst (make_request (lit ''http://localhost:3000/missing'') (lit ''GET'') None None DEFAULT_TIMEOUT
        not_found_server) =
      Inr (lit ''## Response from http://localhost:3000/missing\<newline>\<newline>**Status:** 404 Not Found\<newline>**Content-Type:** unknown\<newline>**Content-Length:** 0 bytes\<newline>\<newline>### Headers\<newline>\<newline>### Body\<newline>\<newline>```\<newline>\<newline>```'')
   \<and> \<not> startswith (lit ''## Response from http://localhost:3000/missing\<newline>\<newline>**Status:** 404 Not Found\<newline>**Content-Type:** unknown\<newline>**Content-Length:** 0 bytes\<newline>\<newline>### Headers\<newline>\<newline>### Body\<newline>\<newline>```\<newline>\<newline>```'')
          (lit ''**HTTP Error:** '')
   \<and> handle_exception (lit ''http://localhost:3000/missing'') DEFAULT_TIMEOUT (HTTPStatusError not_found)
      = Inr (lit ''**HTTP Error:** 404 - Not Found'')"
proof -
  have ok: "respond not_found_server \<lparr>timeout = DEFAULT_TIMEOUT, follow_redirects = True\<rparr>
      (request_kwargs (lit ''http://localhost:3000/missing'') (lit ''GET'') None None) = Inr not_found"
    by (simp add: not_found_server_def httpx_network_def)
  note th = status_codes_pass_through [of not_found_server DEFAULT_TIMEOUT
      "lit ''http://localhost:3000/missing''" "lit ''GET''" None None "\<lambda>cfg req. Inr not_found" "[]"]
  have digits: "str_int 404 = lit ''404''" "str_int 0 = lit ''0''"
    by (simp_all add: str_int_def str_nat.simps lit_def)
  have report: "fst (make_request (lit ''http://localhost:3000/missing'') (lit ''GET'') None None
        DEFAULT_TIMEOUT not_found_server) =
      Inr (lit ''## Response from http://localhost:3000/missing\<newline>\<newline>**Status:** 404 Not Found\<newline>**Content-Type:** unknown\<newline>**Content-Length:** 0 bytes\<newline>\<newline>### Headers\<newline>\<newline>### Body\<newline>\<newline>```\<newline>\<newline>```'')"
    using th [THEN conjunct1, rule_format, OF ok]
    by (simp add: not_found_def headers_get_def headers_items_def
        body_content_def MAX_CONTENT_LENGTH_def digits) (simp add: lit_def)
  then have "fst (make_request (lit ''http://localhost:3000/missing'') (lit ''GET'') None None
        DEFAULT_TIMEOUT (httpx_network (\<lambda>cfg req. Inr not_found) [])) =
      Inr (lit ''## Response from http://localhost:3000/missing\<newline>\<newline>**Status:** 404 Not Found\<newline>**Content-Type:** unknown\<newline>**Content-Length:** 0 bytes\<newline>\<newline>### Headers\<newline>\<newline>### Body\<newline>\<newline>```\<newline>\<newline>```'')"
    by (simp only: not_found_server_def)
  with th [THEN conjunct2, THEN conjunct2, THEN conjunct1]
  have unmarked: "\<not> startswith (lit ''## Response from http://localhost:3000/missing\<newline>\<newline>**Status:** 404 Not Found\<newline>**Content-Type:** unknown\<newline>**Content-Length:** 0 bytes\<newline>\<newline>### Headers\<newline>\<newline>### Body\<newline>\<newline>```\<newline>\<newline>```'')
          (lit ''**HTTP Error:** '')"
    by blast
  have handler: "handle_exception (lit ''http://localhost:3000/missing'') DEFAULT_TIMEOUT
      (HTTPStatusError not_found) = Inr (lit ''**HTTP Error:** 404 - Not Found'')"
    using th [THEN conjunct2, THEN conjunct1, rule_format, of not_found]
    by (simp add: not_found_def digits lit_merge)
  from ok report unmarked handler show ?thesis
    by blast
qed


section \<open>The request that fetch_localhost issues\<close>

text \<open>
  Claim C6: \<^verbatim>\<open>fetch_localhost\<close> issues one request, to the URL made of
  \<^verbatim>\<open>http://localhost:\<close>, the port and the normalized path; the normalized path is the path
  itself when it starts with a slash and the path after a slash otherwise, so normalizing
  twice is normalizing once; port 3000 with path \<^verbatim>\<open>api/users\<close> gives
  \<^verbatim>\<open>http://localhost:3000/api/users\<close>.
\<close>

theorem fetch_localhost_url:
  "(\<exists>cfg req. sent (snd (fetch_localhost params net)) = sent net @ [(cfg, req)]
       \<and> req_url req = lit ''http://localhost:'' @ str_int (port params) @ normalize_path (path params))
   \<and> (startswith (path params) (lit ''/'') \<longrightarrow> normalize_path (path params) = path params)
   \<and> (\<not> startswith (path params) (lit ''/'') \<longrightarrow>
        normalize_path (path params) = lit ''/'' @ path params)
   \<and> normalize_path (normalize_path (path params)) = normalize_path (path params)
   \<and> (port params = 3000 \<and> path params = lit ''api/users'' \<longrightarrow>
        (\<exists>cfg req. sent (snd (fetch_localhost params net)) = sent net @ [(cfg, req)]
           \<and> req_url req = lit ''http://localhost:3000/api/users''))"
proof -
  have idem: "normalize_path (normalize_path (path params)) = normalize_path (path params)"
    using startswith_normalize_path [of "path params"]
    by (simp add: normalize_path_def [of "normalize_path (path params)"])
  have digits: "str_int 3000 = lit ''3000''"
    by (simp add: str_int_def str_nat.simps lit_def)
  have scenario: "lit ''http://localhost:'' @ str_int 3000 @ normalize_path (lit ''api/users'')
      = lit ''http://localhost:3000/api/users''"
    by (simp add: digits) (simp add: normalize_path_def startswith_def lit_def)
  have A: "\<exists>cfg req. sent (snd (fetch_localhost params net)) = sent net @ [(cfg, req)]
       \<and> req_url req = lit ''http://localhost:'' @ str_int (port params) @ normalize_path (path params)"
    by (simp add: fetch_localhost_sent)
  have E: "port params = 3000 \<and> path params = lit ''api/users'' \<longrightarrow>
        (\<exists>cfg req. sent (snd (fetch_localhost params net)) = sent net @ [(cfg, req)]
           \<and> req_url req = lit ''http://localhost:3000/api/users'')"
    using scenario by (auto simp add: fetch_localhost_sent)
  have B: "startswith (path params) (lit ''/'') \<longrightarrow> normalize_path (path params) = path params"
    by (simp add: normalize_path_def)
  have C: "\<not> startswith (path params) (lit ''/'') \<longrightarrow>
        normalize_path (path params) = lit ''/'' @ path params"
    by (simp add: normalize_path_def)
  show ?thesis using A B C idem E by blast
qed

theorem fetch_localhost_url_witness:
  "port users_request = 3000 \<and> path users_request = lit ''api/users''
   \<and> \<not> startswith (path users_request) (lit ''/'')
   \<and> normalize_path (path users_request) = lit ''/api/users''
   \<and> map (req_url \<circ> snd) (sent (snd (fetch_localhost users_request (answering ok_response))))
       = [lit ''http://localhost:3000/api/users'']
   \<and> startswith (path users_request_slash) (lit ''/'')
   \<and> normalize_path (path users_request_slash) = lit ''/api/users''"
proof -
  note th = fetch_localhost_url [of users_request "answering ok_response"]
  note th' = fetch_localhost_url [of users_request_slash "answering ok_response"]
  have hyp: "port users_request = 3000 \<and> path users_request = lit ''api/users''"
    by (simp add: users_request_def)
  have noslash: "\<not> startswith (path users_request) (lit ''/'')"
    by (simp add: users_request_def startswith_def lit_def)
  have slash: "startswith (path users_request_slash) (lit ''/'')"
    by (simp add: users_request_slash_def startswith_def lit_def)
  from th hyp obtain cfg req where
      "sent (snd (fetch_localhost users_request (answering ok_response)))
         = sent (answering ok_response) @ [(cfg, req)]"
      "req_url req = lit ''http://localhost:3000/api/users''"
    by blast
  then have url: "map (req_url \<circ> snd) (sent (snd (fetch_localhost users_request (answering ok_response))))
       = [lit ''http://localhost:3000/api/users'']"
    by (simp add: answering_def)
  from th noslash have "normalize_path (path users_request) = lit ''/'' @ path users_request"
    by blast
  then have n1: "normalize_path (path users_request) = lit ''/api/users''"
    by (simp add: users_request_def lit_def)
  from th' slash have "normalize_path (path users_request_slash) = path users_request_slash"
    by blast
  then have n2: "normalize_path (path users_request_slash) = lit ''/api/users''"
    by (simp add: users_request_slash_def)
  show ?thesis
    using hyp noslash n1 url slash n2 by blast
qed

text \<open>
  Claim C9: the input of \<^verbatim>\<open>fetch_localhost\<close> has no timeout field, the call is
  \<^verbatim>\<open>make_request\<close> with the default timeout, which is 30 seconds, and the client of the one
  request it issues is configured with that timeout.
\<close>

theorem fetch_localhost_default_timeout:
  "fetch_localhost params net =
     make_request (lit ''http://localhost:'' @ str_int (port params) @ normalize_path (path params))
       (method_name params) (input_headers params) (body params) DEFAULT_TIMEOUT net
   \<and> DEFAULT_TIMEOUT = \<lparr>float_value = 30, float_str = lit ''30.0''\<rparr>
   \<and> map (timeout \<circ> fst) (sent (snd (fetch_localhost params net))) =
       map (timeout \<circ> fst) (sent net) @ [\<lparr>float_value = 30, float_str = lit ''30.0''\<rparr>]"
  by (simp add: fetch_localhost_def make_request_sent Let_def DEFAULT_TIMEOUT_def)

theorem fetch_localhost_default_timeout_witness:
  "map (timeout \<circ> fst) (sent (snd (fetch_localhost users_request (answering ok_response))))
     = [\<lparr>float_value = 30, float_str = lit ''30.0''\<rparr>]"
  using fetch_localhost_default_timeout [of users_request "answering ok_response",
      THEN conjunct2, THEN conjunct2]
  by (simp add: answering_def)


section \<open>The header lines of the report\<close>

lemma headers_items_snoc:
  "headers_items (hs @ [(k, v)]) = items_step (headers_items hs) k v"
  by (simp add: headers_items_def)

lemma items_step_new:
  "k \<notin> set ks \<Longrightarrow>
   items_step (map (\<lambda>x. (x, g x)) ks) k v = map (\<lambda>x. (x, g x)) ks @ [(k, v)]"
  by (induction ks) auto

lemma items_step_old:
  "k \<in> set ks \<Longrightarrow> distinct ks \<Longrightarrow>
   items_step (map (\<lambda>x. (x, g x)) ks) k v
     = map (\<lambda>x. (x, if x = k then g x @ lit '', '' @ v else g x)) ks"
  by (induction ks) auto

lemma join_snoc:
  "join sep (xs @ [v]) = (if xs = [] then v else join sep xs @ sep @ v)"
  by (induction sep xs rule: join.induct) auto

lemma first_names_snoc:
  "first_names (hs @ [(k, v)]) = (if k \<in> fst ` set hs then first_names hs else first_names hs @ [k])"
  by (simp add: first_names_def)

lemma set_first_names [simp]: "set (first_names hs) = fst ` set hs"
  by (simp add: first_names_def)

lemma distinct_first_names [simp]: "distinct (first_names hs)"
  by (simp add: first_names_def)

lemma headers_items_eq:
  "headers_items hs =
     map (\<lambda>k. (k, join (lit '', '') (map snd (filter (\<lambda>(k', v). k' = k) hs)))) (first_names hs)"
proof (induction hs rule: rev_induct)
  case Nil
  show ?case by (simp add: headers_items_def first_names_def)
next
  case (snoc kv hs)
  obtain k v where kv: "kv = (k, v)" by (cases kv)
  let ?J = "\<lambda>hs k. join (lit '', '') (map snd (filter (\<lambda>(k', v). k' = k) hs))"
  show ?case
  proof (cases "k \<in> fst ` set hs")
    case False
    then have none: "filter (\<lambda>(k', v). k' = k) hs = []"
      by (force simp add: filter_empty_conv)
    have same: "map (\<lambda>x. (x, ?J (hs @ [(k, v)]) x)) (first_names hs)
              = map (\<lambda>x. (x, ?J hs x)) (first_names hs)"
    proof (rule map_cong [OF refl])
      fix x assume "x \<in> set (first_names hs)"
      with False have "x \<noteq> k" by auto
      then show "(x, ?J (hs @ [(k, v)]) x) = (x, ?J hs x)" by simp
    qed
    have last: "?J (hs @ [(k, v)]) k = v"
      by (simp add: none)
    have "headers_items (hs @ [kv]) = items_step (map (\<lambda>x. (x, ?J hs x)) (first_names hs)) k v"
      by (simp only: kv headers_items_snoc snoc.IH)
    also have "\<dots> = map (\<lambda>x. (x, ?J hs x)) (first_names hs) @ [(k, v)]"
      using False by (simp only: items_step_new set_first_names not_False_eq_True)
    also have "\<dots> = map (\<lambda>x. (x, ?J (hs @ [(k, v)]) x)) (first_names hs)
                      @ [(k, ?J (hs @ [(k, v)]) k)]"
      by (simp only: same last)
    also have "\<dots> = map (\<lambda>x. (x, ?J (hs @ [(k, v)]) x)) (first_names (hs @ [(k, v)]))"
      using False by (simp only: first_names_snoc if_False map_append list.map)
    finally show ?thesis
      by (simp only: kv)
  next
    case True
    then have some: "map snd (filter (\<lambda>(k', v). k' = k) hs) \<noteq> []"
      by (auto simp add: filter_empty_conv)
    have upd: "map (\<lambda>x. (x, ?J (hs @ [(k, v)]) x)) (first_names hs)
             = map (\<lambda>x. (x, if x = k then ?J hs x @ lit '', '' @ v else ?J hs x)) (first_names hs)"
    proof (rule map_cong [OF refl])
      fix x assume "x \<in> set (first_names hs)"
      show "(x, ?J (hs @ [(k, v)]) x) = (x, if x = k then ?J hs x @ lit '', '' @ v else ?J hs x)"
        using some by (simp add: join_snoc)
    qed
    have "headers_items (hs @ [kv]) = items_step (map (\<lambda>x. (x, ?J hs x)) (first_names hs)) k v"
      by (simp only: kv headers_items_snoc snoc.IH)
    also have "\<dots> = map (\<lambda>x. (x, if x = k then ?J hs x @ lit '', '' @ v else ?J hs x))
                          (first_names hs)"
      using True by (simp only: items_step_old set_first_names distinct_first_names)
    also have "\<dots> = map (\<lambda>x. (x, ?J (hs @ [(k, v)]) x)) (first_names hs)"
      by (simp only: upd)
    also have "\<dots> = map (\<lambda>x. (x, ?J (hs @ [(k, v)]) x)) (first_names (hs @ [(k, v)]))"
      using True by (simp only: first_names_snoc if_True)
    finally show ?thesis
      by (simp only: kv)
  qed
qed

lemma headers_items_distinct:
  "distinct (map fst hs) \<Longrightarrow> headers_items hs = hs"
proof (induction hs rule: rev_induct)
  case Nil
  show ?case by (simp add: headers_items_def)
next
  case (snoc kv hs)
  obtain k v where kv: "kv = (k, v)" by (cases kv)
  from snoc.prems have d: "distinct (map fst hs)" and notin: "k \<notin> fst ` set hs"
    by (auto simp add: kv)
  have "items_step hs k v = hs @ [(k, v)]"
    using notin by (induction hs) auto
  with snoc.IH [OF d] show ?case
    by (simp add: kv headers_items_snoc)
qed

text \<open>
  Claim C7, as stated, fails: the loop of line 116 runs over \<^verbatim>\<open>response.headers.items()\<close>,
  and \<^verbatim>\<open>items()\<close> of \<^verbatim>\<open>httpx.Headers\<close> gives one entry per name. A response that sets two
  cookies gets one \<^verbatim>\<open>set-cookie\<close> line with both values, not two lines.
\<close>

theorem repeated_header_merged:
  "fst (make_request (lit ''http://localhost:3000/'') (lit ''GET'') None None DEFAULT_TIMEOUT
         (answering two_cookies)) =
     Inr (lit ''## Response from http://localhost:3000/\<newline>\<newline>**Status:** 200 OK\<newline>**Content-Type:** unknown\<newline>**Content-Length:** 0 bytes\<newline>\<newline>### Headers\<newline>- set-cookie: a=1, b=2\<newline>\<newline>### Body\<newline>\<newline>```\<newline>\<newline>```'')
   \<and> fst (make_request (lit ''http://localhost:3000/'') (lit ''GET'') None None DEFAULT_TIMEOUT
         (answering two_cookies)) \<noteq>
     Inr (lit ''## Response from http://localhost:3000/\<newline>\<newline>**Status:** 200 OK\<newline>**Content-Type:** unknown\<newline>**Content-Length:** 0 bytes\<newline>\<newline>### Headers\<newline>- set-cookie: a=1\<newline>- set-cookie: b=2\<newline>\<newline>### Body\<newline>\<newline>```\<newline>\<newline>```'')"
proof -
  have digits: "str_int 200 = lit ''200''" "str_int 0 = lit ''0''"
    by (simp_all add: str_int_def str_nat.simps lit_def)
  have "fst (make_request (lit ''http://localhost:3000/'') (lit ''GET'') None None DEFAULT_TIMEOUT
         (answering two_cookies)) =
     Inr (lit ''## Response from http://localhost:3000/\<newline>\<newline>**Status:** 200 OK\<newline>**Content-Type:** unknown\<newline>**Content-Length:** 0 bytes\<newline>\<newline>### Headers\<newline>- set-cookie: a=1, b=2\<newline>\<newline>### Body\<newline>\<newline>```\<newline>\<newline>```'')"
    by (simp add: make_request_result answering_def format_response_def two_cookies_def
        headers_get_def headers_items_def body_content_def MAX_CONTENT_LENGTH_def digits Let_def)
       (simp add: lit_def)
  then show ?thesis
    by (simp add: lit_def)
qed

text \<open>
  Claim C7, amended: the report of a response consists, in this order, of the line naming
  the URL, the status line, the content type, the content length, the header lines and the
  fenced body; there is one header line per distinct header name, in the order of first
  occurrence, and its value joins the values of all occurrences of the name, in response
  order, with a comma and a space; when no name is repeated, that is one line per header
  in response order.
\<close>

theorem report_sections:
  assumes "respond net \<lparr>timeout = t, follow_redirects = True\<rparr> (request_kwargs url m h b) = Inr r"
  shows "fst (make_request url m h b t net) = Inr (
       lit ''## Response from '' @ url
     @ lit ''\<newline>\<newline>**Status:** '' @ str_int (status_code r) @ lit '' '' @ reason_phrase r
     @ lit ''\<newline>**Content-Type:** '' @ headers_get (headers r) (lit ''content-type'') (lit ''unknown'')
     @ lit ''\<newline>**Content-Length:** '' @ str_int (int (length (response.content r)))
     @ lit '' bytes\<newline>\<newline>### Headers\<newline>''
     @ concat (map (\<lambda>(key, value). lit ''- '' @ key @ lit '': '' @ value @ lit ''\<newline>'')
                   (headers_items (headers r)))
     @ lit ''\<newline>### Body\<newline>\<newline>```\<newline>'' @ body_content r @ lit ''\<newline>```'')
   \<and> headers_items (headers r) =
       map (\<lambda>k. (k, join (lit '', '') (map snd (filter (\<lambda>(k', v). k' = k) (headers r)))))
           (first_names (headers r))
   \<and> (distinct (map fst (headers r)) \<longrightarrow> headers_items (headers r) = headers r)"
proof -
  have "fst (make_request url m h b t net) = Inr (format_response url r)"
    using assms by (simp add: make_request_result)
  then show ?thesis
    using headers_items_eq [of "headers r"] headers_items_distinct [of "headers r"]
    by (simp only: format_response_sections) blast
qed

theorem report_sections_witness:
  "respond (answering cookies_and_type) \<lparr>timeout = DEFAULT_TIMEOUT, follow_redirects = True\<rparr>
       (request_kwargs (lit ''http://localhost:5173/'') (lit ''GET'') None None) = Inr cookies_and_type
   \<and> fst (make_request (lit ''http://localhost:5173/'') (lit ''GET'') None None DEFAULT_TIMEOUT
         (answering cookies_and_type)) =
     Inr (lit ''## Response from http://localhost:5173/\<newline>\<newline>**Status:** 200 OK\<newline>**Content-Type:** text/html\<newline>**Content-Length:** 2 bytes\<newline>\<newline>### Headers\<newline>- set-cookie: a=1, b=2\<newline>- content-type: text/html\<newline>\<newline>### Body\<newline>\<newline>```\<newline>hi\<newline>```'')
   \<and> respond (answering ok_response) \<lparr>timeout = DEFAULT_TIMEOUT, follow_redirects = True\<rparr>
       (request_kwargs (lit ''http://localhost:5173/'') (lit ''GET'') None None) = Inr ok_response
   \<and> distinct (map fst (headers ok_response))
   \<and> headers_items (headers ok_response) = [(lit ''content-type'', lit ''text/html'')]"
proof -
  have ok: "respond (answering cookies_and_type) \<lparr>timeout = DEFAULT_TIMEOUT, follow_redirects = True\<rparr>
       (request_kwargs (lit ''http://localhost:5173/'') (lit ''GET'') None None) = Inr cookies_and_type"
    by (simp add: answering_def)
  have ok': "respond (answering ok_response) \<lparr>timeout = DEFAULT_TIMEOUT, follow_redirects = True\<rparr>
       (request_kwargs (lit ''http://localhost:5173/'') (lit ''GET'') None None) = Inr ok_response"
    by (simp add: answering_def)
  have d: "distinct (map fst (headers ok_response))"
    by (simp add: ok_response_def)
  have digits: "str_int 200 = lit ''200''" "str_int 2 = lit ''2''"
    by (simp_all add: str_int_def str_nat.simps lit_def)
  have names: "first_names (headers cookies_and_type) = [lit ''set-cookie'', lit ''content-type'']"
    by (simp add: first_names_def cookies_and_type_def lit_def)
  have items: "headers_items (headers cookies_and_type) =
      [(lit ''set-cookie'', lit ''a=1, b=2''), (lit ''content-type'', lit ''text/html'')]"
    using report_sections [OF ok, THEN conjunct2, THEN conjunct1]
    by (simp add: names) (simp add: cookies_and_type_def lit_def)
  have report: "fst (make_request (lit ''http://localhost:5173/'') (lit ''GET'') None None DEFAULT_TIMEOUT
         (answering cookies_and_type)) =
     Inr (lit ''## Response from http://localhost:5173/\<newline>\<newline>**Status:** 200 OK\<newline>**Content-Type:** text/html\<newline>**Content-Length:** 2 bytes\<newline>\<newline>### Headers\<newline>- set-cookie: a=1, b=2\<newline>- content-type: text/html\<newline>\<newline>### Body\<newline>\<newline>```\<newline>hi\<newline>```'')"
    using report_sections [OF ok, THEN conjunct1]
    by (simp add: items)
       (simp add: cookies_and_type_def headers_get_def body_content_def MAX_CONTENT_LENGTH_def
          digits lit_def)
  have "headers_items (headers ok_response) = headers ok_response"
    using report_sections [OF ok', THEN conjunct2, THEN conjunct2] d by blast
  then have "headers_items (headers ok_response) = [(lit ''content-type'', lit ''text/html'')]"
    by (simp add: ok_response_def)
  with ok ok' d report show ?thesis by blast
qed


section \<open>The report of check_ports\<close>

lemma probe_ports_all:
  "\<forall>p\<in>set ports. port_status (respond net scan_client
        (get_request (lit ''http://localhost:'' @ str_int p @ lit ''/''))) = Inr (lab p) \<Longrightarrow>
   fst (probe_ports ports results net) =
     Inr (results @ map (\<lambda>p. lit ''- **Port '' @ str_int p @ lit '':** '' @ lab p) ports)"
proof (induction ports arbitrary: results net)
  case Nil
  show ?case by simp
next
  case (Cons p ports)
  let ?net' = "net\<lparr>sent := sent net @ [(scan_client,
      get_request (lit ''http://localhost:'' @ str_int p @ lit ''/''))]\<rparr>"
  have here: "port_status (respond net scan_client
        (get_request (lit ''http://localhost:'' @ str_int p @ lit ''/''))) = Inr (lab p)"
    using Cons.prems by simp
  have rest: "\<forall>q\<in>set ports. port_status (respond ?net' scan_client
        (get_request (lit ''http://localhost:'' @ str_int q @ lit ''/''))) = Inr (lab q)"
    using Cons.prems by simp
  show ?case
    using Cons.IH [OF rest] here
    by (simp add: client_request_def Let_def)
qed

lemma check_ports_all:
  assumes "\<forall>p\<in>set common_ports. port_status (respond net scan_client
        (get_request (lit ''http://localhost:'' @ str_int p @ lit ''/''))) = Inr (lab p)"
  shows "fst (check_ports net) =
     Inr (join (lit ''\<newline>'') (lit ''## Local Port Scan Results\<newline>''
        # map (\<lambda>p. lit ''- **Port '' @ str_int p @ lit '':** '' @ lab p) common_ports))"
proof -
  have "fst (probe_ports common_ports [lit ''## Local Port Scan Results\<newline>''] net) =
     Inr ([lit ''## Local Port Scan Results\<newline>'']
          @ map (\<lambda>p. lit ''- **Port '' @ str_int p @ lit '':** '' @ lab p) common_ports)"
    using assms by (rule probe_ports_all)
  then show ?thesis
    by (cases "probe_ports common_ports [lit ''## Local Port Scan Results\<newline>''] net")
       (simp add: check_ports_def)
qed

lemma port_status_caught:
  assumes "\<forall>name msg. out \<noteq> Inl (NonException name msg)"
  shows "\<exists>s. port_status out = Inr s"
proof (cases out)
  case (Inl e)
  with assms show ?thesis by (cases e) auto
next
  case (Inr r)
  then show ?thesis by simp
qed

lemma port_digits:
  "str_int 3000 = lit ''3000''" "str_int 3001 = lit ''3001''" "str_int 4000 = lit ''4000''"
  "str_int 5000 = lit ''5000''" "str_int 5173 = lit ''5173''" "str_int 5174 = lit ''5174''"
  "str_int 8000 = lit ''8000''" "str_int 8080 = lit ''8080''" "str_int 8888 = lit ''8888''"
  by (simp_all add: str_int_def str_nat.simps lit_def)

lemma report_text:
  "join (lit ''\<newline>'') (lit ''## Local Port Scan Results\<newline>''
        # map (\<lambda>p. lit ''- **Port '' @ str_int p @ lit '':** '' @ lab p) common_ports) =
     lit ''## Local Port Scan Results\<newline>\<newline>- **Port 3000:** '' @ lab 3000
     @ lit ''\<newline>- **Port 3001:** '' @ lab 3001
     @ lit ''\<newline>- **Port 4000:** '' @ lab 4000
     @ lit ''\<newline>- **Port 5000:** '' @ lab 5000
     @ lit ''\<newline>- **Port 5173:** '' @ lab 5173
     @ lit ''\<newline>- **Port 5174:** '' @ lab 5174
     @ lit ''\<newline>- **Port 8000:** '' @ lab 8000
     @ lit ''\<newline>- **Port 8080:** '' @ lab 8080
     @ lit ''\<newline>- **Port 8888:** '' @ lab 8888"
  by (simp add: common_ports_def port_digits) (simp add: lit_def)

text \<open>
  Claim C4: when every probe ends in a response, a connection failure, a timeout or another
  \<^verbatim>\<open>Exception\<close>, the report is the heading followed by one bullet line per port, for the
  ports 3000, 3001, 4000, 5000, 5173, 5174, 8000, 8080, 8888 in this order, each line
  carrying the status text of the probe of its port.
\<close>

theorem check_ports_order:
  assumes "\<forall>p\<in>set common_ports. \<forall>name msg. respond net scan_client
        (get_request (lit ''http://localhost:'' @ str_int p @ lit ''/'')) \<noteq> Inl (NonException name msg)"
  shows "\<exists>lab. fst (check_ports net) = Inr (
       lit ''## Local Port Scan Results\<newline>\<newline>- **Port 3000:** '' @ lab 3000
     @ lit ''\<newline>- **Port 3001:** '' @ lab 3001
     @ lit ''\<newline>- **Port 4000:** '' @ lab 4000
     @ lit ''\<newline>- **Port 5000:** '' @ lab 5000
     @ lit ''\<newline>- **Port 5173:** '' @ lab 5173
     @ lit ''\<newline>- **Port 5174:** '' @ lab 5174
     @ lit ''\<newline>- **Port 8000:** '' @ lab 8000
     @ lit ''\<newline>- **Port 8080:** '' @ lab 8080
     @ lit ''\<newline>- **Port 8888:** '' @ lab 8888)
   \<and> (\<forall>p\<in>set common_ports. port_status (respond net scan_client
        (get_request (lit ''http://localhost:'' @ str_int p @ lit ''/''))) = Inr (lab p))"
proof -
  have "\<forall>p\<in>set common_ports. \<exists>s. port_status (respond net scan_client
        (get_request (lit ''http://localhost:'' @ str_int p @ lit ''/''))) = Inr s"
    using assms port_status_caught by blast
  then obtain lab where lab: "\<forall>p\<in>set common_ports. port_status (respond net scan_client
        (get_request (lit ''http://localhost:'' @ str_int p @ lit ''/''))) = Inr (lab p)"
    by metis
  from check_ports_all [OF lab] have "fst (check_ports net) = Inr (
       lit ''## Local Port Scan Results\<newline>\<newline>- **Port 3000:** '' @ lab 3000
     @ lit ''\<newline>- **Port 3001:** '' @ lab 3001
     @ lit ''\<newline>- **Port 4000:** '' @ lab 4000
     @ lit ''\<newline>- **Port 5000:** '' @ lab 5000
     @ lit ''\<newline>- **Port 5173:** '' @ lab 5173
     @ lit ''\<newline>- **Port 5174:** '' @ lab 5174
     @ lit ''\<newline>- **Port 8000:** '' @ lab 8000
     @ lit ''\<newline>- **Port 8080:** '' @ lab 8080
     @ lit ''\<newline>- **Port 8888:** '' @ lab 8888)"
    by (simp only: report_text)
  with lab show ?thesis by blast
qed

text \<open>The scenario of the spec: only port 5173 accepts connections and answers 200.\<close>

theorem check_ports_order_witness:
  "fst (check_ports only_5173) = Inr (
       lit ''## Local Port Scan Results\<newline>\<newline>- **Port 3000:** '' @ [10060] @ lit '' Closed/Not responding''
     @ lit ''\<newline>- **Port 3001:** '' @ [10060] @ lit '' Closed/Not responding''
     @ lit ''\<newline>- **Port 4000:** '' @ [10060] @ lit '' Closed/Not responding''
     @ lit ''\<newline>- **Port 5000:** '' @ [10060] @ lit '' Closed/Not responding''
     @ lit ''\<newline>- **Port 5173:** '' @ [9989] @ lit '' **OPEN** - Status 200''
     @ lit ''\<newline>- **Port 5174:** '' @ [10060] @ lit '' Closed/Not responding''
     @ lit ''\<newline>- **Port 8000:** '' @ [10060] @ lit '' Closed/Not responding''
     @ lit ''\<newline>- **Port 8080:** '' @ [10060] @ lit '' Closed/Not responding''
     @ lit ''\<newline>- **Port 8888:** '' @ [10060] @ lit '' Closed/Not responding'')"
proof -
  have outs:
    "respond only_5173 scan_client (get_request (lit ''http://localhost:'' @ str_int 3000 @ lit ''/''))
       = Inl (ConnectError (lit ''All connection attempts failed''))"
    "respond only_5173 scan_client (get_request (lit ''http://localhost:'' @ str_int 3001 @ lit ''/''))
       = Inl (ConnectError (lit ''All connection attempts failed''))"
    "respond only_5173 scan_client (get_request (lit ''http://localhost:'' @ str_int 4000 @ lit ''/''))
       = Inl (ConnectError (lit ''All connection attempts failed''))"
    "respond only_5173 scan_client (get_request (lit ''http://localhost:'' @ str_int 5000 @ lit ''/''))
       = Inl (ConnectError (lit ''All connection attempts failed''))"
    "respond only_5173 scan_client (get_request (lit ''http://localhost:'' @ str_int 5173 @ lit ''/''))
       = Inr ok_response"
    "respond only_5173 scan_client (get_request (lit ''http://localhost:'' @ str_int 5174 @ lit ''/''))
       = Inl (ConnectError (lit ''All connection attempts failed''))"
    "respond only_5173 scan_client (get_request (lit ''http://localhost:'' @ str_int 8000 @ lit ''/''))
       = Inl (ConnectError (lit ''All connection attempts failed''))"
    "respond only_5173 scan_client (get_request (lit ''http://localhost:'' @ str_int 8080 @ lit ''/''))
       = Inl (ConnectError (lit ''All connection attempts failed''))"
    "respond only_5173 scan_client (get_request (lit ''http://localhost:'' @ str_int 8888 @ lit ''/''))
       = Inl (ConnectError (lit ''All connection attempts failed''))"
    by (simp_all add: only_5173_def get_request_def port_digits lit_def)
  have hyp: "\<forall>p\<in>set common_ports. \<forall>name msg. respond only_5173 scan_client
        (get_request (lit ''http://localhost:'' @ str_int p @ lit ''/'')) \<noteq> Inl (NonException name msg)"
    by (simp add: common_ports_def outs)
  from check_ports_order [OF hyp] obtain lab where
      rep: "fst (check_ports only_5173) = Inr (
       lit ''## Local Port Scan Results\<newline>\<newline>- **Port 3000:** '' @ lab 3000
     @ lit ''\<newline>- **Port 3001:** '' @ lab 3001
     @ lit ''\<newline>- **Port 4000:** '' @ lab 4000
     @ lit ''\<newline>- **Port 5000:** '' @ lab 5000
     @ lit ''\<newline>- **Port 5173:** '' @ lab 5173
     @ lit ''\<newline>- **Port 5174:** '' @ lab 5174
     @ lit ''\<newline>- **Port 8000:** '' @ lab 8000
     @ lit ''\<newline>- **Port 8080:** '' @ lab 8080
     @ lit ''\<newline>- **Port 8888:** '' @ lab 8888)"
    and labs: "\<forall>p\<in>set common_ports. port_status (respond only_5173 scan_client
        (get_request (lit ''http://localhost:'' @ str_int p @ lit ''/''))) = Inr (lab p)"
    by blast
  have digits: "str_int 200 = lit ''200''"
    by (simp add: str_int_def str_nat.simps lit_def)
  have lab_3000: "lab 3000 = [10060] @ lit '' Closed/Not responding''"
    using labs [THEN bspec, of 3000] by (simp add: common_ports_def outs ok_response_def digits lit_merge)
  have lab_3001: "lab 3001 = [10060] @ lit '' Closed/Not responding''"
    using labs [THEN bspec, of 3001] by (simp add: common_ports_def outs ok_response_def digits lit_merge)
  have lab_4000: "lab 4000 = [10060] @ lit '' Closed/Not responding''"
    using labs [THEN bspec, of 4000] by (simp add: common_ports_def outs ok_response_def digits lit_merge)
  have lab_5000: "lab 5000 = [10060] @ lit '' Closed/Not responding''"
    using labs [THEN bspec, of 5000] by (simp add: common_ports_def outs ok_response_def digits lit_merge)
  have lab_5173: "lab 5173 = [9989] @ lit '' **OPEN** - Status 200''"
    using labs [THEN bspec, of 5173] by (simp add: common_ports_def outs ok_response_def digits lit_merge)
  have lab_5174: "lab 5174 = [10060] @ lit '' Closed/Not responding''"
    using labs [THEN bspec, of 5174] by (simp add: common_ports_def outs ok_response_def digits lit_merge)
  have lab_8000: "lab 8000 = [10060] @ lit '' Closed/Not responding''"
    using labs [THEN bspec, of 8000] by (simp add: common_ports_def outs ok_response_def digits lit_merge)
  have lab_8080: "lab 8080 = [10060] @ lit '' Closed/Not responding''"
    using labs [THEN bspec, of 8080] by (simp add: common_ports_def outs ok_response_def digits lit_merge)
  have lab_8888: "lab 8888 = [10060] @ lit '' Closed/Not responding''"
    using labs [THEN bspec, of 8888] by (simp add: common_ports_def outs ok_response_def digits lit_merge)
  show ?thesis
    by (simp add: rep lab_3000 lab_3001 lab_4000 lab_5000 lab_5173 lab_5174 lab_8000 lab_8080 lab_8888)
qed

text \<open>
  Claim C5: the status text of a port is OPEN with the status code for a response of any
  status code, Closed for a connection failure, Timeout (might be busy) for a timeout, and
  Error with the name of the exception type for any other \<^verbatim>\<open>Exception\<close>, an
  \<^verbatim>\<open>HTTPStatusError\<close> included.
\<close>

theorem check_ports_labels:
  assumes "\<forall>p\<in>set common_ports. \<forall>name msg. respond net scan_client
        (get_request (lit ''http://localhost:'' @ str_int p @ lit ''/'')) \<noteq> Inl (NonException name msg)"
  shows "\<exists>lab. fst (check_ports net) =
       Inr (join (lit ''\<newline>'') (lit ''## Local Port Scan Results\<newline>''
          # map (\<lambda>p. lit ''- **Port '' @ str_int p @ lit '':** '' @ lab p) common_ports))
     \<and> (\<forall>p\<in>set common_ports.
          (\<forall>r. respond net scan_client (get_request (lit ''http://localhost:'' @ str_int p @ lit ''/''))
                 = Inr r
              \<longrightarrow> lab p = [9989] @ lit '' **OPEN** - Status '' @ str_int (status_code r))
        \<and> (\<forall>msg. respond net scan_client (get_request (lit ''http://localhost:'' @ str_int p @ lit ''/''))
                 = Inl (ConnectError msg)
              \<longrightarrow> lab p = [10060] @ lit '' Closed/Not responding'')
        \<and> (\<forall>msg. respond net scan_client (get_request (lit ''http://localhost:'' @ str_int p @ lit ''/''))
                 = Inl (TimeoutException msg)
              \<longrightarrow> lab p = [9203] @ lit '' Timeout (might be busy)'')
        \<and> (\<forall>r. respond net scan_client (get_request (lit ''http://localhost:'' @ str_int p @ lit ''/''))
                 = Inl (HTTPStatusError r)
              \<longrightarrow> lab p = [9888, 65039] @ lit '' Error: HTTPStatusError'')
        \<and> (\<forall>name msg. respond net scan_client (get_request (lit ''http://localhost:'' @ str_int p @ lit ''/''))
                 = Inl (OtherException name msg)
              \<longrightarrow> lab p = [9888, 65039] @ lit '' Error: '' @ name))"
proof -
  have "\<forall>p\<in>set common_ports. \<exists>s. port_status (respond net scan_client
        (get_request (lit ''http://localhost:'' @ str_int p @ lit ''/''))) = Inr s"
    using assms port_status_caught by blast
  then obtain lab where lab: "\<forall>p\<in>set common_ports. port_status (respond net scan_client
        (get_request (lit ''http://localhost:'' @ str_int p @ lit ''/''))) = Inr (lab p)"
    by metis
  show ?thesis
  proof (intro exI conjI ballI)
    show "fst (check_ports net) =
       Inr (join (lit ''\<newline>'') (lit ''## Local Port Scan Results\<newline>''
          # map (\<lambda>p. lit ''- **Port '' @ str_int p @ lit '':** '' @ lab p) common_ports))"
      by (rule check_ports_all [OF lab])
  next
    fix p assume "p \<in> set common_ports"
    with lab have *: "port_status (respond net scan_client
        (get_request (lit ''http://localhost:'' @ str_int p @ lit ''/''))) = Inr (lab p)"
      by blast
    show "\<forall>r. respond net scan_client (get_request (lit ''http://localhost:'' @ str_int p @ lit ''/''))
                 = Inr r
              \<longrightarrow> lab p = [9989] @ lit '' **OPEN** - Status '' @ str_int (status_code r)"
      using * by auto
    show "\<forall>msg. respond net scan_client (get_request (lit ''http://localhost:'' @ str_int p @ lit ''/''))
                 = Inl (ConnectError msg)
              \<longrightarrow> lab p = [10060] @ lit '' Closed/Not responding''"
      using * by auto
    show "\<forall>msg. respond net scan_client (get_request (lit ''http://localhost:'' @ str_int p @ lit ''/''))
                 = Inl (TimeoutException msg)
              \<longrightarrow> lab p = [9203] @ lit '' Timeout (might be busy)''"
      using * by auto
    show "\<forall>r. respond net scan_client (get_request (lit ''http://localhost:'' @ str_int p @ lit ''/''))
                 = Inl (HTTPStatusError r)
              \<longrightarrow> lab p = [9888, 65039] @ lit '' Error: HTTPStatusError''"
      using * by (auto simp add: lit_def)
    show "\<forall>name msg. respond net scan_client (get_request (lit ''http://localhost:'' @ str_int p @ lit ''/''))
                 = Inl (OtherException name msg)
              \<longrightarrow> lab p = [9888, 65039] @ lit '' Error: '' @ name"
      using * by auto
  qed
qed

theorem check_ports_labels_witness:
  "fst (check_ports mixed_ports) = Inr (
       lit ''## Local Port Scan Results\<newline>\<newline>- **Port 3000:** '' @ [9989] @ lit '' **OPEN** - Status 404''
     @ lit ''\<newline>- **Port 3001:** '' @ [9203] @ lit '' Timeout (might be busy)''
     @ lit ''\<newline>- **Port 4000:** '' @ [9888, 65039] @ lit '' Error: RemoteProtocolError''
     @ lit ''\<newline>- **Port 5000:** '' @ [10060] @ lit '' Closed/Not responding''
     @ lit ''\<newline>- **Port 5173:** '' @ [9989] @ lit '' **OPEN** - Status 200''
     @ lit ''\<newline>- **Port 5174:** '' @ [10060] @ lit '' Closed/Not responding''
     @ lit ''\<newline>- **Port 8000:** '' @ [10060] @ lit '' Closed/Not responding''
     @ lit ''\<newline>- **Port 8080:** '' @ [9888, 65039] @ lit '' Error: HTTPStatusError''
     @ lit ''\<newline>- **Port 8888:** '' @ [10060] @ lit '' Closed/Not responding'')"
proof -
  have outs:
    "respond mixed_ports scan_client (get_request (lit ''http://localhost:'' @ str_int 3000 @ lit ''/''))
       = Inr not_found"
    "respond mixed_ports scan_client (get_request (lit ''http://localhost:'' @ str_int 3001 @ lit ''/''))
       = Inl (TimeoutException [])"
    "respond mixed_ports scan_client (get_request (lit ''http://localhost:'' @ str_int 4000 @ lit ''/''))
       = Inl (OtherException (lit ''RemoteProtocolError'') (lit ''Server disconnected''))"
    "respond mixed_ports scan_client (get_request (lit ''http://localhost:'' @ str_int 5000 @ lit ''/''))
       = Inl (ConnectError (lit ''All connection attempts failed''))"
    "respond mixed_ports scan_client (get_request (lit ''http://localhost:'' @ str_int 5173 @ lit ''/''))
       = Inr ok_response"
    "respond mixed_ports scan_client (get_request (lit ''http://localhost:'' @ str_int 5174 @ lit ''/''))
       = Inl (ConnectError (lit ''All connection attempts failed''))"
    "respond mixed_ports scan_client (get_request (lit ''http://localhost:'' @ str_int 8000 @ lit ''/''))
       = Inl (ConnectError (lit ''All connection attempts failed''))"
    "respond mixed_ports scan_client (get_request (lit ''http://localhost:'' @ str_int 8080 @ lit ''/''))
       = Inl (HTTPStatusError not_found)"
    "respond mixed_ports scan_client (get_request (lit ''http://localhost:'' @ str_int 8888 @ lit ''/''))
       = Inl (ConnectError (lit ''All connection attempts failed''))"
    by (simp_all add: mixed_ports_def get_request_def port_digits lit_def)
  have hyp: "\<forall>p\<in>set common_ports. \<forall>name msg. respond mixed_ports scan_client
        (get_request (lit ''http://localhost:'' @ str_int p @ lit ''/'')) \<noteq> Inl (NonException name msg)"
    by (simp add: common_ports_def outs)
  from check_ports_labels [OF hyp] obtain lab where
      rep: "fst (check_ports mixed_ports) =
       Inr (join (lit ''\<newline>'') (lit ''## Local Port Scan Results\<newline>''
          # map (\<lambda>p. lit ''- **Port '' @ str_int p @ lit '':** '' @ lab p) common_ports))"
    and labs: "\<forall>p\<in>set common_ports.
          (\<forall>r. respond mixed_ports scan_client (get_request (lit ''http://localhost:'' @ str_int p @ lit ''/'')) = Inr r
              \<longrightarrow> lab p = [9989] @ lit '' **OPEN** - Status '' @ str_int (status_code r))
        \<and> (\<forall>msg. respond mixed_ports scan_client (get_request (lit ''http://localhost:'' @ str_int p @ lit ''/'')) = Inl (ConnectError msg)
              \<longrightarrow> lab p = [10060] @ lit '' Closed/Not responding'')
        \<and> (\<forall>msg. respond mixed_ports scan_client (get_request (lit ''http://localhost:'' @ str_int p @ lit ''/'')) = Inl (TimeoutException msg)
              \<longrightarrow> lab p = [9203] @ lit '' Timeout (might be busy)'')
        \<and> (\<forall>r. respond mixed_ports scan_client (get_request (lit ''http://localhost:'' @ str_int p @ lit ''/'')) = Inl (HTTPStatusError r)
              \<longrightarrow> lab p = [9888, 65039] @ lit '' Error: HTTPStatusError'')
        \<and> (\<forall>name msg. respond mixed_ports scan_client (get_request (lit ''http://localhost:'' @ str_int p @ lit ''/'')) = Inl (OtherException name msg)
              \<longrightarrow> lab p = [9888, 65039] @ lit '' Error: '' @ name)"
    by blast
  have digits: "str_int 200 = lit ''200''" "str_int 404 = lit ''404''"
    by (simp_all add: str_int_def str_nat.simps lit_def)
  have lab_3000: "lab 3000 = [9989] @ lit '' **OPEN** - Status 404''"
    using labs [THEN bspec, of 3000] by (simp add: common_ports_def outs ok_response_def not_found_def digits lit_merge)
  have lab_3001: "lab 3001 = [9203] @ lit '' Timeout (might be busy)''"
    using labs [THEN bspec, of 3001] by (simp add: common_ports_def outs ok_response_def not_found_def digits lit_merge)
  have lab_4000: "lab 4000 = [9888, 65039] @ lit '' Error: RemoteProtocolError''"
    using labs [THEN bspec, of 4000] by (simp add: common_ports_def outs ok_response_def not_found_def digits lit_merge)
  have lab_5000: "lab 5000 = [10060] @ lit '' Closed/Not responding''"
    using labs [THEN bspec, of 5000] by (simp add: common_ports_def outs ok_response_def not_found_def digits lit_merge)
  have lab_5173: "lab 5173 = [9989] @ lit '' **OPEN** - Status 200''"
    using labs [THEN bspec, of 5173] by (simp add: common_ports_def outs ok_response_def not_found_def digits lit_merge)
  have lab_5174: "lab 5174 = [10060] @ lit '' Closed/Not responding''"
    using labs [THEN bspec, of 5174] by (simp add: common_ports_def outs ok_response_def not_found_def digits lit_merge)
  have lab_8000: "lab 8000 = [10060] @ lit '' Closed/Not responding''"
    using labs [THEN bspec, of 8000] by (simp add: common_ports_def outs ok_response_def not_found_def digits lit_merge)
  have lab_8080: "lab 8080 = [9888, 65039] @ lit '' Error: HTTPStatusError''"
    using labs [THEN bspec, of 8080] by (simp add: common_ports_def outs ok_response_def not_found_def digits lit_merge)
  have lab_8888: "lab 8888 = [10060] @ lit '' Closed/Not responding''"
    using labs [THEN bspec, of 8888] by (simp add: common_ports_def outs ok_response_def not_found_def digits lit_merge)
  show ?thesis
    by (simp add: rep report_text lab_3000 lab_3001 lab_4000 lab_5000 lab_5173 lab_5174 lab_8000 lab_8080 lab_8888)
qed

end
